theory Spec2Isabelle
  imports Main "HOL-Library.Char_ord" "HOL-Library.List_Lexorder" "HOL-Library.Finite_Map"
begin

section \<open>Python strings\<close>

text \<open>
  A Python \<open>str\<close> is a \<open>string\<close> (a list of characters). The operations below are
  the ones \<open>conjureup/models/provider.py\<close> applies to strings.
\<close>

text \<open>\<open>s.startswith(p)\<close>\<close>

definition startswith :: "string \<Rightarrow> string \<Rightarrow> bool" where
  "startswith p s = (take (length p) s = p)"

text \<open>\<open>s.endswith(p)\<close>\<close>

definition endswith :: "string \<Rightarrow> string \<Rightarrow> bool" where
  "endswith p s = startswith (rev p) (rev s)"

text \<open>\<open>s.split(c)\<close> for a separator of one character: never an empty list.\<close>

fun split_on :: "char \<Rightarrow> string \<Rightarrow> string list" where
  "split_on c [] = [[]]"
| "split_on c (x # xs) =
     (if x = c then [] # split_on c xs
      else (case split_on c xs of
              [] \<Rightarrow> [[x]]
            | y # ys \<Rightarrow> (x # y) # ys))"

text \<open>\<open>sub in s\<close>: \<open>sub\<close> occurs in \<open>s\<close> as a contiguous run.\<close>

fun contains :: "string \<Rightarrow> string \<Rightarrow> bool" where
  "contains sub [] = (sub = [])"
| "contains sub (x # xs) = (startswith sub (x # xs) \<or> contains sub xs)"

text \<open>\<open>sep.join(parts)\<close>\<close>

fun join :: "string \<Rightarrow> string list \<Rightarrow> string" where
  "join sep [] = []"
| "join sep [p] = p"
| "join sep (p # q # ps) = p @ sep @ join sep (q # ps)"

section \<open>Exceptions, widgets and the process-wide state\<close>

text \<open>
  The exceptions that the module raises or lets through. \<open>CalledProcessError\<close> carries
  the return code, the captured output and the captured error stream; \<open>LocalhostError\<close>
  wraps the exception it was raised from.
\<close>

datatype exn =
    AttributeError
  | TypeError
  | KeyError
  | ValueError
  | LookupError
  | NotImplementedError
  | FileNotFoundError
  | CalledProcessError int string string
  | JSONDecodeError
  | LocalhostError exn
  | LocalhostJSONError string
  | VSphereInvalidLogin
  | SchemaError string
  | SchemaErrorUnknownCloud string
  | OtherError string

text \<open>
  Input widgets are objects: a field holds a reference to its widget, and a validator
  reaches the same widget through the form. Widgets therefore live in a store, indexed
  by address. A widget has its class, the \<open>default\<close> it was constructed with and its
  current \<open>value\<close> (\<open>None\<close> is Python's \<open>None\<close>).
\<close>

type_synonym addr = nat

datatype widget_class = StringEditor | PasswordEditor | YesNo

record widget_obj =
  wclass :: widget_class
  wdefault :: "string option"
  wvalue :: "string option"

text \<open>What \<open>app.log\<close> was asked to write: a level and the object logged.\<close>

datatype log_level = Debug | Error

datatype log_entry = Log log_level string | LogExn log_level exn

text \<open>
  Calls that leave the program: \<open>arun(cmd, input=..., check=...)\<close> (an argument that
  is not passed is \<open>None\<close>), and the two blocking calls on a vSphere client.
\<close>

datatype call =
    Arun "string list" "string option" "bool option"
  | ClientLogin
  | ClientGetDatacenters

text \<open>
  The state outside a provider object: the widget store with its next free address,
  the environment map \<open>app.env\<close>, the log, and the trace of external calls made so
  far.
\<close>

record world =
  heap :: "addr \<Rightarrow> widget_obj"
  next_addr :: addr
  app_env :: "string \<Rightarrow> string option"
  app_log :: "log_entry list"
  calls :: "call list"

section \<open>Field and Form\<close>

text \<open>
  A validator is a callable of no arguments that returns \<open>(is_valid, msg)\<close>; it is a
  closure, so it may read and change the state, and it may raise. The attribute may
  also hold \<open>None\<close> or an object that is not callable.
\<close>

type_synonym validator_fn = "world \<Rightarrow> (exn + bool \<times> string option) \<times> world"

datatype validator = NoValidator | NotCallable | Callable validator_fn

text \<open>
  \<open>class Field\<close>. \<open>error\<close> is the markup last handed to the \<open>Text\<close> widget by
  \<open>set_text\<close> (\<open>Text("")\<close> at construction).
\<close>

record field_attrs =
  label :: string
  widget :: addr
  key :: string
  storable :: bool
  error :: "string option"
  required :: bool

record field = field_attrs +
  validator :: validator

text \<open>The property \<open>Field.value\<close>: getter and setter go to the widget.\<close>

definition field_value :: "'a field_attrs_scheme \<Rightarrow> world \<Rightarrow> string option" where
  "field_value f w = wvalue (heap w (widget f))"

definition set_field_value :: "'a field_attrs_scheme \<Rightarrow> string option \<Rightarrow> world \<Rightarrow> world" where
  "set_field_value f v w = w\<lparr>heap := (heap w)(widget f := (heap w (widget f))\<lparr>wvalue := v\<rparr>)\<rparr>"

text \<open>Python truth of a widget value: \<open>None\<close> and the empty string are false.\<close>

definition truthy :: "string option \<Rightarrow> bool" where
  "truthy v = (case v of None \<Rightarrow> False | Some s \<Rightarrow> s \<noteq> [])"

text \<open>
  \<open>Field.validate\<close>. The result is what the call returns or raises, the field with its
  error text as the call leaves it, and the state.
\<close>

definition validate :: "field \<Rightarrow> world \<Rightarrow> (exn + bool) \<times> field \<times> world" where
  "validate self w =
     (let self1 = self\<lparr>error := Some []\<rparr> in
      if required self1 \<and> \<not> truthy (field_value self1 w) then
        (Inr False, self1\<lparr>error := Some ''This field is required and cannot be empty.''\<rparr>, w)
      else
        (case validator self1 of
           Callable v \<Rightarrow>
             (case v w of
                (Inl e, w') \<Rightarrow> (Inl e, self1, w')
              | (Inr (is_valid, msg), w') \<Rightarrow>
                  if \<not> is_valid then (Inr False, self1\<lparr>error := msg\<rparr>, w')
                  else (Inr True, self1, w'))
         | _ \<Rightarrow> (Inr True, self1, w)))"

text \<open>\<open>Form.field(key)\<close>: the first field whose declared key is \<open>k\<close>, or \<open>None\<close>.\<close>

fun form_field :: "string \<Rightarrow> 'a field_attrs_scheme list \<Rightarrow> 'a field_attrs_scheme option" where
  "form_field k [] = None"
| "form_field k (f # fs) = (if k = key f then Some f else form_field k fs)"

section \<open>MAAS: the API key validator\<close>

definition api_key_msg :: string where
  "api_key_msg =
     ''Could not determine tokens, usually indicates an '' @
     ''error with the format of the API KEY. That format '' @
     ''should be 'aaaaa:bbbbb:cccc'. Please visit your MAAS user '' @
     ''preferences page to grab the correct API Key: '' @
     ''http://<maas-server>:5240/MAAS/account/prefs/''"

text \<open>
  \<open>MAAS._has_correct_api_key\<close>, on the form of \<open>self\<close>. Reading \<open>.value\<close> of
  \<open>None\<close> (no field of that key) raises \<open>AttributeError\<close>.
\<close>

definition has_correct_api_key ::
  "'a field_attrs_scheme list \<Rightarrow> world \<Rightarrow> (exn + bool \<times> string option) \<times> world" where
  "has_correct_api_key form w =
     (case form_field ''maas-oauth'' form of
        None \<Rightarrow> (Inl AttributeError, w)
      | Some f \<Rightarrow>
          (let k = split_on CHR '':''
                     (case field_value f w of None \<Rightarrow> [] | Some s \<Rightarrow> s)
           in if length k \<noteq> 3 then (Inr (False, Some api_key_msg), w)
              else (Inr (True, None), w)))"

section \<open>JSON values and pure POSIX paths\<close>

text \<open>
  What \<open>json.loads\<close> returns: \<open>None\<close>, a \<open>bool\<close>, an \<open>int\<close>, a \<open>str\<close>, a
  \<open>list\<close> or a \<open>dict\<close> (its items, each key once). Numbers are integers here.
\<close>

datatype json =
    JNull
  | JBool bool
  | JNum int
  | JStr string
  | JArr "json list"
  | JObj "(string \<times> json) list"

text \<open>\<open>j[k]\<close> for a string \<open>k\<close>: only a dict can be indexed by a string.\<close>

definition subscript :: "json \<Rightarrow> string \<Rightarrow> exn + json" where
  "subscript j k =
     (case j of
        JObj kvs \<Rightarrow> (case map_of kvs k of None \<Rightarrow> Inl KeyError | Some v \<Rightarrow> Inr v)
      | _ \<Rightarrow> Inl TypeError)"

text \<open>
  \<open>for x in j\<close>: a list gives its items, a dict its keys, a string its characters;
  the other values are not iterable.
\<close>

definition iter_json :: "json \<Rightarrow> exn + json list" where
  "iter_json j =
     (case j of
        JArr xs \<Rightarrow> Inr xs
      | JObj kvs \<Rightarrow> Inr (map (\<lambda>kv. JStr (fst kv)) kvs)
      | JStr s \<Rightarrow> Inr (map (\<lambda>c. JStr [c]) s)
      | _ \<Rightarrow> Inl TypeError)"

text \<open>
  A value as a dict key. Lists and dicts are unhashable. Python holds \<open>True == 1\<close> and
  \<open>False == 0\<close>, so a bool is the key its integer is.
\<close>

definition dict_key :: "json \<Rightarrow> exn + json" where
  "dict_key j =
     (case j of
        JArr _ \<Rightarrow> Inl TypeError
      | JObj _ \<Rightarrow> Inl TypeError
      | JBool b \<Rightarrow> Inr (JNum (if b then 1 else 0))
      | _ \<Rightarrow> Inr j)"

text \<open>
  \<open>pathlib\<close> on POSIX: a path is a root (empty, \<open>/\<close> or \<open>//\<close>) and its components.
  Parsing drops empty components and the component \<open>.\<close>; exactly two leading
  slashes are kept as the root \<open>//\<close>.
\<close>

record ppath =
  proot :: string
  pparts :: "string list"

definition splitroot :: "string \<Rightarrow> string \<times> string" where
  "splitroot part =
     (if part \<noteq> [] \<and> hd part = CHR ''/'' then
        (let stripped_part = dropWhile (\<lambda>c. c = CHR ''/'') part in
         if length part - length stripped_part = 2 then (''//'', stripped_part)
         else (''/'', stripped_part))
      else ([], part))"

text \<open>\<open>Path(s)\<close>\<close>

definition Path :: "string \<Rightarrow> ppath" where
  "Path s =
     (case splitroot s of
        (rt, rel) \<Rightarrow>
          \<lparr>proot = rt, pparts = filter (\<lambda>x. x \<noteq> [] \<and> x \<noteq> ''.'') (split_on CHR ''/'' rel)\<rparr>)"

text \<open>\<open>p / s\<close>: a segment with a root replaces \<open>p\<close>.\<close>

definition truediv :: "ppath \<Rightarrow> string \<Rightarrow> ppath" where
  "truediv p s =
     (let q = Path s in
      if proot q \<noteq> [] then q else \<lparr>proot = proot p, pparts = pparts p @ pparts q\<rparr>)"

text \<open>\<open>str(p)\<close>\<close>

definition path_str :: "ppath \<Rightarrow> string" where
  "path_str p =
     (if proot p = [] \<and> pparts p = [] then ''.'' else proot p @ join ''/'' (pparts p))"

text \<open>\<open>s.rfind(c)\<close>: the last index of \<open>c\<close>, \<open>None\<close> for Python's \<open>-1\<close>.\<close>

definition rfind :: "char \<Rightarrow> string \<Rightarrow> nat option" where
  "rfind c s =
     (if c \<in> set s then Some (length s - 1 - length (takeWhile (\<lambda>x. x \<noteq> c) (rev s)))
      else None)"

text \<open>\<open>p.name\<close> and \<open>p.stem\<close>\<close>

definition path_name :: "ppath \<Rightarrow> string" where
  "path_name p = (if pparts p = [] then [] else last (pparts p))"

definition stem :: "ppath \<Rightarrow> string" where
  "stem p =
     (let name = path_name p in
      case rfind CHR ''.'' name of
        None \<Rightarrow> name
      | Some i \<Rightarrow> if 0 < i \<and> i < length name - 1 then take i name else name)"

text \<open>\<open>s.upper()\<close> on ASCII letters; other characters stay.\<close>

definition upper :: "string \<Rightarrow> string" where
  "upper s =
     map (\<lambda>c. if CHR ''a'' \<le> c \<and> c \<le> CHR ''z'' then char_of (of_char c - (32::nat)) else c) s"

section \<open>Ordered dictionaries\<close>

text \<open>
  An \<open>OrderedDict\<close> is the list of its items in order, each key once. \<open>d[k] = v\<close>
  replaces the value of a key that is there, in place, and appends a new key.
\<close>

definition od_set :: "'k \<Rightarrow> 'v \<Rightarrow> ('k \<times> 'v) list \<Rightarrow> ('k \<times> 'v) list" where
  "od_set k v d =
     (if k \<in> fst ` set d then map (\<lambda>kv. if fst kv = k then (k, v) else kv) d
      else d @ [(k, v)])"

text \<open>\<open>d.move_to_end(k, last=False)\<close>: \<open>KeyError\<close> for a key that is not there.\<close>

definition move_to_front :: "'k \<Rightarrow> ('k \<times> 'v) list \<Rightarrow> exn + ('k \<times> 'v) list" where
  "move_to_front k d =
     (case map_of d k of
        None \<Rightarrow> Inl KeyError
      | Some v \<Rightarrow> Inr ((k, v) # filter (\<lambda>kv. fst kv \<noteq> k) d))"

section \<open>External collaborators\<close>

text \<open>
  A credential record as \<open>CredentialManager.get_credential\<close> returns it, an entry of
  the cloud registry as \<open>get_cloud\<close> returns it (\<open>None\<close> for a key that is absent),
  and a vSphere client, which is built from a credential and an endpoint.
\<close>

record cred =
  access_key :: string
  secret_key :: string

record cloud_entry =
  entry_endpoint :: "string option"
  entry_regions :: "(string, json) fmap option"

record vclient =
  client_cred :: cred
  client_endpoint :: "string option"

text \<open>
  The object \<open>urlparse\<close> returns, with what the module reads of it: \<open>netloc\<close>,
  \<open>path\<close> and the result of \<open>geturl()\<close>.
\<close>

record parse_result =
  netloc :: string
  path :: string
  geturl :: string

text \<open>
  Code that is not in this module is a parameter of the model: the widget library
  (the value a new widget holds), \<open>urlparse\<close> and \<open>urljoin\<close> (a result or the
  exception raised), \<open>is_valid_hostname\<close>, \<open>ipaddress.ip_address\<close> (whether it
  accepts the string; it raises \<open>ValueError\<close> when not), \<open>parse_version\<close> with the order on versions,
  whether \<open>/snap/bin/lxd\<close> exists, the process run by \<open>arun\<close> (what it returns or
  raises, given the calls made before and the arguments), \<open>json.loads\<close> (\<open>None\<close>
  when it raises \<open>JSONDecodeError\<close>), the cloud registry, the credential store, and the
  vSphere client's \<open>login\<close> and \<open>get_datacenters\<close>.
\<close>

record ('v, 'd) ext =
  initial_value :: "widget_class \<Rightarrow> string option \<Rightarrow> string option"
  urlparse :: "string \<Rightarrow> exn + parse_result"
  urljoin :: "string \<Rightarrow> string \<Rightarrow> exn + string"
  is_valid_hostname :: "string \<Rightarrow> bool"
  ip_address :: "string \<Rightarrow> bool"
  parse_version :: "string \<Rightarrow> 'v"
  version_le :: "'v \<Rightarrow> 'v \<Rightarrow> bool"
  snap_lxd_exists :: bool
  proc :: "call list \<Rightarrow> string list \<Rightarrow> string option \<Rightarrow> bool option \<Rightarrow> exn + int \<times> string \<times> string"
  json_loads :: "string \<Rightarrow> json option"
  get_cloud :: "string \<Rightarrow> exn + cloud_entry"
  get_credential :: "string option \<Rightarrow> string option \<Rightarrow> string option \<Rightarrow> exn + cred"
  client_login :: "call list \<Rightarrow> vclient \<Rightarrow> exn option"
  client_get_datacenters :: "call list \<Rightarrow> vclient \<Rightarrow> exn + 'd list"

text \<open>\<open>arun(cmd, input=inp, check=chk)\<close>: the call joins the trace.\<close>

definition arun ::
  "('v, 'd) ext \<Rightarrow> string list \<Rightarrow> string option \<Rightarrow> bool option \<Rightarrow> world \<Rightarrow>
   (exn + int \<times> string \<times> string) \<times> world" where
  "arun X cmd inp chk w = (proc X (calls w) cmd inp chk, w\<lparr>calls := calls w @ [Arun cmd inp chk]\<rparr>)"

definition log_to :: "log_entry \<Rightarrow> world \<Rightarrow> world" where
  "log_to e w = w\<lparr>app_log := app_log w @ [e]\<rparr>"

section \<open>Localhost: the LXD query bridge\<close>

text \<open>The request path that \<open>Localhost.query\<close> builds from \<open>segment\<close>.\<close>

definition query_url :: "string \<Rightarrow> string" where
  "query_url segment =
     (if startswith ''/1.0'' segment then segment
      else path_str (truediv (Path ''/1.0'') segment))"

text \<open>\<open>Localhost.query(segment, method)\<close>\<close>

definition query ::
  "('v, 'd) ext \<Rightarrow> string \<Rightarrow> string \<Rightarrow> world \<Rightarrow> (exn + json) \<times> world" where
  "query X segment method w =
     (let url = query_url segment;
          cmd = [''lxc'', ''query'', ''--wait'', ''-X'', upper method, url];
          w1 = log_to (Log Debug (''LXD query cmd: '' @ join '' '' cmd)) w
      in case arun X cmd None None w1 of
           (Inr (_, out, err), w2) \<Rightarrow>
             (case json_loads X out of
                Some j \<Rightarrow> (Inr j, w2)
              | None \<Rightarrow>
                  (Inl (LocalhostJSONError ''Unable to parse JSON output from LXD''),
                   log_to (Log Error ''Unable to parse JSON output from LXD'') w2))
         | (Inl JSONDecodeError, w2) \<Rightarrow>
             (Inl (LocalhostJSONError ''Unable to parse JSON output from LXD''),
              log_to (Log Error ''Unable to parse JSON output from LXD'') w2)
         | (Inl FileNotFoundError, w2) \<Rightarrow>
             (Inl FileNotFoundError, log_to (LogExn Error FileNotFoundError) w2)
         | (Inl (CalledProcessError rc out err), w2) \<Rightarrow>
             (Inl (LocalhostError (CalledProcessError rc out err)),
              log_to (LogExn Error (CalledProcessError rc out err)) w2)
         | (Inl e, w2) \<Rightarrow> (Inl e, w2))"

text \<open>
  \<open>Localhost.get_networks\<close>: the body of the loop once \<open>net_info\<close> is there, the loop,
  and the method.
\<close>

definition add_bridge :: "json \<Rightarrow> (json \<times> json) list \<Rightarrow> exn + (json \<times> json) list" where
  "add_bridge net_info bridges =
     (case subscript net_info ''type'' of
        Inl e \<Rightarrow> Inl e
      | Inr t \<Rightarrow>
          if t = JStr ''bridge'' then
            (case subscript net_info ''name'' of
               Inl e \<Rightarrow> Inl e
             | Inr name \<Rightarrow>
                 (case dict_key name of
                    Inl e \<Rightarrow> Inl e
                  | Inr k \<Rightarrow>
                      (let bridges1 = od_set k net_info bridges in
                       if name = JStr ''lxdbr0'' then move_to_front (JStr ''lxdbr0'') bridges1
                       else Inr bridges1)))
          else Inr bridges)"

fun networks_loop ::
  "('v, 'd) ext \<Rightarrow> json list \<Rightarrow> (json \<times> json) list \<Rightarrow> world \<Rightarrow>
   (exn + (json \<times> json) list) \<times> world" where
  "networks_loop X [] bridges w = (Inr bridges, w)"
| "networks_loop X (net # nets) bridges w =
     (case net of
        JStr segment \<Rightarrow>
          (case query X segment ''GET'' w of
             (Inl e, w') \<Rightarrow> (Inl e, w')
           | (Inr net_info, w') \<Rightarrow>
               (case add_bridge net_info bridges of
                  Inl e \<Rightarrow> (Inl e, w')
                | Inr bridges' \<Rightarrow> networks_loop X nets bridges' w'))
      | _ \<Rightarrow> (Inl AttributeError, w))"

definition get_networks ::
  "('v, 'd) ext \<Rightarrow> world \<Rightarrow> (exn + (json \<times> json) list) \<times> world" where
  "get_networks X w =
     (case query X ''networks'' ''GET'' w of
        (Inl e, w') \<Rightarrow> (Inl e, w')
      | (Inr networks, w') \<Rightarrow>
          (case iter_json networks of
             Inl e \<Rightarrow> (Inl e, w')
           | Inr nets \<Rightarrow> networks_loop X nets [] w'))"

text \<open>
  \<open>Localhost.get_storage_pools\<close>. \<open>Path(pool)\<close> raises \<open>TypeError\<close> for a value that
  is not a string.
\<close>

fun pools_loop ::
  "('v, 'd) ext \<Rightarrow> json list \<Rightarrow> (string \<times> json) list \<Rightarrow> world \<Rightarrow>
   (exn + (string \<times> json) list) \<times> world" where
  "pools_loop X [] pools w = (Inr pools, w)"
| "pools_loop X (pool # rest) pools w =
     (case pool of
        JStr p \<Rightarrow>
          (let pool_path = Path p in
           case query X p ''GET'' w of
             (Inl e, w') \<Rightarrow> (Inl e, w')
           | (Inr info, w') \<Rightarrow>
               (let pools1 = od_set (stem pool_path) info pools in
                if stem pool_path = ''default'' then
                  (case move_to_front ''default'' pools1 of
                     Inl e \<Rightarrow> (Inl e, w')
                   | Inr pools2 \<Rightarrow> pools_loop X rest pools2 w')
                else pools_loop X rest pools1 w'))
      | _ \<Rightarrow> (Inl TypeError, w))"

definition get_storage_pools ::
  "('v, 'd) ext \<Rightarrow> world \<Rightarrow> (exn + (string \<times> json) list) \<times> world" where
  "get_storage_pools X w =
     (case query X ''storage-pools'' ''GET'' w of
        (Inl e, w') \<Rightarrow> (Inl e, w')
      | (Inr pools, w') \<Rightarrow>
          (case iter_json pools of
             Inl e \<Rightarrow> (Inl e, w')
           | Inr ps \<Rightarrow> pools_loop X ps [] w'))"

section \<open>MAAS: the endpoint validator\<close>

definition endpoint_msg_address :: string where
  "endpoint_msg_address =
     ''Unable to determine the web address, '' @
     ''please use the format of '' @
     ''http://maas-server.com:5240/MAAS''"

definition endpoint_msg_format :: string where
  "endpoint_msg_format =
     ''Unable to validate that this entry is '' @
     ''the correct format. Please use  the format of '' @
     ''http://maas-server.com:5240/MAAS''"

text \<open>
  \<open>MAAS._has_correct_endpoint\<close>, on the form of \<open>self\<close>. A \<open>ValueError\<close> is caught
  in the last branch only; a value of \<open>None\<close> has no \<open>startswith\<close>.
\<close>

definition has_correct_endpoint ::
  "('v, 'd) ext \<Rightarrow> 'a field_attrs_scheme list \<Rightarrow> world \<Rightarrow>
   (exn + bool \<times> string option) \<times> world" where
  "has_correct_endpoint X fm w =
     (case form_field ''endpoint'' fm of
        None \<Rightarrow> (Inl AttributeError, w)
      | Some f \<Rightarrow>
          (case field_value f w of
             None \<Rightarrow> (Inl AttributeError, w)
           | Some endpoint \<Rightarrow>
               if startswith ''http'' endpoint then
                 (case urlparse X endpoint of
                    Inl e \<Rightarrow> (Inl e, w)
                  | Inr url \<Rightarrow>
                      if netloc url = [] then (Inr (False, Some endpoint_msg_address), w)
                      else if \<not> contains ''MAAS'' (path url) then
                        (case urljoin X (geturl url) ''MAAS'' of
                           Inl e \<Rightarrow> (Inl e, w)
                         | Inr v \<Rightarrow> (Inr (True, None), set_field_value f (Some v) w))
                      else (Inr (True, None), w))
               else if is_valid_hostname X endpoint then
                 (case urljoin X (''http://'' @ endpoint @ '':5240'') ''MAAS'' of
                    Inl e \<Rightarrow> (Inl e, w)
                  | Inr v \<Rightarrow> (Inr (True, None), set_field_value f (Some v) w))
               else
                 (let ip = split_on CHR '':'' endpoint;
                      port = (if length ip = 2 then ip ! 1 else ''5240'');
                      ip = (if length ip = 2 then ip ! 0 else last ip)
                  in if ip_address X ip then
                       (case urljoin X (''http://'' @ ip @ '':'' @ port) ''MAAS'' of
                          Inl ValueError \<Rightarrow> (Inr (False, Some endpoint_msg_format), w)
                        | Inl e \<Rightarrow> (Inl e, w)
                        | Inr v \<Rightarrow> (Inr (True, None), set_field_value f (Some v) w))
                     else (Inr (False, Some endpoint_msg_format), w))))"

section \<open>Providers\<close>

text \<open>
  \<open>class BaseProvider\<close>: the attributes of \<open>__init__\<close>. The form is the list of its
  fields in declaration order.
\<close>

record base_provider =
  auth_type :: "string option"
  endpoint :: "string option"
  model :: "string option"
  model_defaults :: "string option"
  controller :: "string option"
  cloud :: "string option"
  cloud_type :: "string option"
  regions :: "string list"
  region :: "string option"
  credential :: "string option"
  client :: "vclient option"
  authenticated :: bool
  form :: "field list option"

record 'd vsphere = base_provider +
  datacenters :: "'d list option"

record 'v localhost = base_provider +
  network_interface :: "string option"
  minimum_support_version :: 'v
  available :: bool
  lxd_socket_dir :: "string option"

definition BaseProvider_init :: base_provider where
  "BaseProvider_init =
     \<lparr>auth_type = None, endpoint = None, model = None, model_defaults = None,
      controller = None, cloud = None, cloud_type = None, regions = [], region = None,
      credential = None, client = None, authenticated = False, form = None\<rparr>"

text \<open>
  \<open>BaseProvider.load\<close>. \<open>KeyError\<close> is a \<open>LookupError\<close>. The exception raised is
  built from the formatted message.
\<close>

definition load ::
  "('v, 'd) ext \<Rightarrow> string \<Rightarrow> 'a base_provider_scheme \<Rightarrow> (exn + unit) \<times> 'a base_provider_scheme" where
  "load X cloud_name self =
     (case get_cloud X cloud_name of
        Inr c \<Rightarrow>
          (Inr (),
           self\<lparr>cloud := Some cloud_name,
                endpoint := entry_endpoint c,
                regions := (case entry_regions c of
                              None \<Rightarrow> []
                            | Some r \<Rightarrow> sorted_list_of_fset (fmdom r))\<rparr>)
      | Inl e \<Rightarrow>
          if e = LookupError \<or> e = KeyError then
            (Inl (SchemaErrorUnknownCloud
                   (''Unknown cloud: '' @ cloud_name @ '', not updating provider attributes'')),
             self)
          else (Inl e, self))"

section \<open>AWS\<close>

definition newline :: string where
  "newline = [CHR 0x0A]"

text \<open>
  \<open>AWS.configure_tools\<close>. The handler of the \<open>try\<close> block logs a \<open>CalledProcessError\<close>
  and raises it again; other exceptions pass. A command needs a profile name that is a
  string.
\<close>

definition reraise_logged :: "exn \<Rightarrow> world \<Rightarrow> (exn + unit) \<times> world" where
  "reraise_logged e w =
     (case e of
        CalledProcessError rc out err \<Rightarrow>
          (Inl e, log_to (Log Error (''Failed to configure AWS CLI profile: '' @ err)) w)
      | _ \<Rightarrow> (Inl e, w))"

definition configure_tools ::
  "('v, 'd) ext \<Rightarrow> 'a base_provider_scheme \<Rightarrow> world \<Rightarrow> (exn + unit) \<times> world" where
  "configure_tools X self w =
     (case get_credential X (cloud self) (cloud_type self) (credential self) of
        Inl e \<Rightarrow> (Inl e, w)
      | Inr cred \<Rightarrow>
          (case credential self of
             None \<Rightarrow> (Inl TypeError, w)
           | Some profile \<Rightarrow>
               (case arun X [''aws'', ''configure'', ''list'', ''--profile'', profile]
                       None (Some False) w of
                  (Inl e, w1) \<Rightarrow> reraise_logged e w1
                | (Inr (ret, _, _), w1) \<Rightarrow>
                    if ret \<noteq> 0 then
                      (case arun X [''aws'', ''configure'', ''--profile'', profile]
                              (Some (access_key cred @ newline @ secret_key cred @
                                     newline @ newline @ newline))
                              (Some True) w1 of
                         (Inl e, w2) \<Rightarrow> reraise_logged e w2
                       | (Inr _, w2) \<Rightarrow> (Inr (), w2))
                    else (Inr (), w1))))"

section \<open>VSphere\<close>

text \<open>\<open>VSphere.login\<close>\<close>

definition login ::
  "('v, 'd) ext \<Rightarrow> ('d, 'a) vsphere_scheme \<Rightarrow> world \<Rightarrow>
   (exn + unit) \<times> ('d, 'a) vsphere_scheme \<times> world" where
  "login X self w =
     (if authenticated self then (Inr (), self, w)
      else
        (case get_credential X (cloud self) (cloud_type self) (credential self) of
           Inl e \<Rightarrow> (Inl e, self, w)
         | Inr cred \<Rightarrow>
             (let c = \<lparr>client_cred = cred, client_endpoint = endpoint self\<rparr>;
                  self1 = self\<lparr>client := Some c\<rparr>;
                  w1 = w\<lparr>calls := calls w @ [ClientLogin]\<rparr>
              in case client_login X (calls w) c of
                   Some e \<Rightarrow> (Inl e, self1, w1)
                 | None \<Rightarrow> (Inr (), self1\<lparr>authenticated := True\<rparr>, w1))))"

text \<open>\<open>VSphere.get_datacenters\<close>\<close>

definition get_datacenters ::
  "('v, 'd) ext \<Rightarrow> ('d, 'a) vsphere_scheme \<Rightarrow> world \<Rightarrow>
   (exn + 'd list) \<times> ('d, 'a) vsphere_scheme \<times> world" where
  "get_datacenters X self w =
     (case datacenters self of
        Some ds \<Rightarrow> (Inr ds, self, w)
      | None \<Rightarrow>
          (case (if \<not> authenticated self then login X self w else (Inr (), self, w)) of
             (Inl e, self1, w1) \<Rightarrow> (Inl e, self1, w1)
           | (Inr _, self1, w1) \<Rightarrow>
               (case client self1 of
                  None \<Rightarrow> (Inl AttributeError, self1, w1)
                | Some c \<Rightarrow>
                    (let w2 = w1\<lparr>calls := calls w1 @ [ClientGetDatacenters]\<rparr> in
                     case client_get_datacenters X (calls w1) c of
                       Inl e \<Rightarrow> (Inl e, self1, w2)
                     | Inr ds \<Rightarrow> (Inr ds, self1\<lparr>datacenters := Some ds\<rparr>, w2)))))"

section \<open>Localhost: compatibility of the server\<close>


section \<open>The adapters and the registry\<close>

text \<open>The names of \<open>conjureup.consts.cloud_types\<close> that the adapters use.\<close>

definition cloud_types_AWS :: string where "cloud_types_AWS = ''ec2''"
definition cloud_types_MAAS :: string where "cloud_types_MAAS = ''maas''"
definition cloud_types_AZURE :: string where "cloud_types_AZURE = ''azure''"
definition cloud_types_GCE :: string where "cloud_types_GCE = ''gce''"
definition cloud_types_CLOUDSIGMA :: string where "cloud_types_CLOUDSIGMA = ''cloudsigma''"
definition cloud_types_JOYENT :: string where "cloud_types_JOYENT = ''joyent''"
definition cloud_types_OPENSTACK :: string where "cloud_types_OPENSTACK = ''openstack''"
definition cloud_types_VSPHERE :: string where "cloud_types_VSPHERE = ''vsphere''"
definition cloud_types_ORACLE :: string where "cloud_types_ORACLE = ''oracle''"
definition cloud_types_LOCALHOST :: string where "cloud_types_LOCALHOST = ''localhost''"

text \<open>A widget constructor call: the new object takes the next free address.\<close>

definition new_widget ::
  "('v, 'd) ext \<Rightarrow> widget_class \<Rightarrow> string option \<Rightarrow> world \<Rightarrow> addr \<times> world" where
  "new_widget X c d w =
     (next_addr w,
      w\<lparr>heap := (heap w)(next_addr w :=
                    \<lparr>wclass = c, wdefault = d, wvalue = initial_value X c d\<rparr>),
        next_addr := Suc (next_addr w)\<rparr>)"

text \<open>
  \<open>Field(label=l, widget=C(default=d), key=k, storable=s)\<close> for each declaration, in
  order; \<open>required\<close> keeps its default \<open>True\<close>. The validator is attached afterwards.
\<close>

fun new_fields ::
  "('v, 'd) ext \<Rightarrow> (string \<times> widget_class \<times> string option \<times> string \<times> bool) list \<Rightarrow> world \<Rightarrow>
   field_attrs list \<times> world" where
  "new_fields X [] w = ([], w)"
| "new_fields X ((l, c, d, k, s) # ds) w =
     (case new_widget X c d w of
        (a, w1) \<Rightarrow>
          (case new_fields X ds w1 of
             (fs, w2) \<Rightarrow>
               (\<lparr>label = l, widget = a, key = k, storable = s, error = Some [],
                 required = True\<rparr> # fs, w2)))"

definition with_validator :: "field_attrs \<Rightarrow> validator \<Rightarrow> field" where
  "with_validator a v = field_attrs.extend a (field.fields v)"

definition plain_form :: "field_attrs list \<Rightarrow> field list" where
  "plain_form fs = map (\<lambda>a. with_validator a NoValidator) fs"

text \<open>An adapter object carries its class.\<close>

datatype ('v, 'd) adapter =
    AWS base_provider
  | MAAS base_provider
  | Azure base_provider
  | Google base_provider
  | CloudSigma base_provider
  | Joyent base_provider
  | OpenStack base_provider
  | VSphere "'d vsphere"
  | Oracle base_provider
  | Localhost "'v localhost"

type_synonym ('v, 'd) constructor = "('v, 'd) ext \<Rightarrow> world \<Rightarrow> ('v, 'd) adapter \<times> world"

definition AWS_init :: "('v, 'd) constructor" where
  "AWS_init X w =
     (case new_fields X
             [(''AWS Access Key'', StringEditor, None, ''access-key'', True),
              (''AWS Secret Key'', StringEditor, None, ''secret-key'', True)] w of
        (fs, w') \<Rightarrow>
          (AWS (BaseProvider_init\<lparr>auth_type := Some ''access-key'',
                                  cloud_type := Some cloud_types_AWS,
                                  form := Some (plain_form fs)\<rparr>), w'))"

text \<open>
  The two validators of the MAAS form are methods bound to the provider; they read its
  form through the key and the widget of its fields.
\<close>

definition MAAS_init :: "('v, 'd) constructor" where
  "MAAS_init X w =
     (case new_fields X
             [(''api endpoint (http://example.com:5240/MAAS)'', StringEditor, None,
               ''endpoint'', False),
              (''api key'', StringEditor, None, ''maas-oauth'', True)] w of
        (fs, w') \<Rightarrow>
          (MAAS (BaseProvider_init\<lparr>auth_type := Some ''oauth1'',
                                   cloud_type := Some cloud_types_MAAS,
                                   form := Some (map2 with_validator fs
                                             [Callable (has_correct_endpoint X fs),
                                              Callable (has_correct_api_key fs)])\<rparr>), w'))"

definition Azure_init :: "('v, 'd) constructor" where
  "Azure_init X w =
     (case new_fields X
             [(''application id'', StringEditor, None, ''appnlication-id'', True),
              (''subscription id'', StringEditor, None, ''subscription-id'', True),
              (''application password'', PasswordEditor, None, ''application-password'', True)]
             w of
        (fs, w') \<Rightarrow>
          (Azure (BaseProvider_init\<lparr>auth_type := Some ''service-principal-secret'',
                                    cloud_type := Some cloud_types_AZURE,
                                    form := Some (plain_form fs)\<rparr>), w'))"

definition Google_init :: "('v, 'd) constructor" where
  "Google_init X w =
     (case new_fields X
             [(''private key'', StringEditor, None, ''private-key'', True),
              (''client id'', StringEditor, None, ''client-id'', True),
              (''client email'', StringEditor, None, ''client-email'', True),
              (''project id'', StringEditor, None, ''project-id'', True)] w of
        (fs, w') \<Rightarrow>
          (Google (BaseProvider_init\<lparr>auth_type := Some ''oauth2'',
                                     cloud_type := Some cloud_types_GCE,
                                     form := Some (plain_form fs)\<rparr>), w'))"

definition CloudSigma_init :: "('v, 'd) constructor" where
  "CloudSigma_init X w =
     (case new_fields X
             [(''username'', StringEditor, None, ''username'', True),
              (''password'', StringEditor, None, ''password'', True)] w of
        (fs, w') \<Rightarrow>
          (CloudSigma (BaseProvider_init\<lparr>auth_type := Some ''userpass'',
                                         cloud_type := Some cloud_types_CLOUDSIGMA,
                                         form := Some (plain_form fs)\<rparr>), w'))"

definition Joyent_init :: "('v, 'd) constructor" where
  "Joyent_init X w =
     (case new_fields X
             [(''sdc user'', StringEditor, None, ''sdc-user'', True),
              (''sdc key id'', StringEditor, None, ''sdc-key-id'', True),
              (''private key'', StringEditor, None, ''private-key'', True),
              (''algorithm'', StringEditor, Some ''rsa-sha256'', ''algorithm'', True)] w of
        (fs, w') \<Rightarrow>
          (Joyent (BaseProvider_init\<lparr>auth_type := Some ''userpass'',
                                     cloud_type := Some cloud_types_JOYENT,
                                     form := Some (plain_form fs)\<rparr>), w'))"

definition OpenStack_init :: "('v, 'd) constructor" where
  "OpenStack_init X w =
     (case new_fields X
             [(''username'', StringEditor, None, ''username'', True),
              (''password'', PasswordEditor, None, ''password'', True),
              (''domain name'', StringEditor, None, ''domain-name'', True),
              (''project domain name'', StringEditor, None, ''project-domain-name'', True),
              (''access key'', StringEditor, None, ''access-key'', True),
              (''secret key'', StringEditor, None, ''secret-key'', True)] w of
        (fs, w') \<Rightarrow>
          (OpenStack (BaseProvider_init\<lparr>auth_type := Some ''userpass'',
                                        cloud_type := Some cloud_types_OPENSTACK,
                                        form := Some (plain_form fs)\<rparr>), w'))"

definition VSphere_init :: "('v, 'd) constructor" where
  "VSphere_init X w =
     (case new_fields X
             [(''api endpoint'', StringEditor, None, ''endpoint'', False),
              (''user'', StringEditor, None, ''user'', True),
              (''password'', PasswordEditor, None, ''password'', True)] w of
        (fs, w') \<Rightarrow>
          (VSphere (base_provider.extend
                      (BaseProvider_init\<lparr>auth_type := Some ''userpass'',
                                          cloud_type := Some cloud_types_VSPHERE,
                                          form := Some (plain_form fs)\<rparr>)
                      (vsphere.fields None)), w'))"

definition Oracle_init :: "('v, 'd) constructor" where
  "Oracle_init X w =
     (case new_fields X
             [(''identity domain'', StringEditor, None, ''identity-domain'', True),
              (''username or e-mail'', StringEditor, None, ''username'', True),
              (''password'', PasswordEditor, None, ''password'', True)] w of
        (fs, w') \<Rightarrow>
          (Oracle (BaseProvider_init\<lparr>auth_type := Some ''userpass'',
                                     cloud_type := Some cloud_types_ORACLE,
                                     form := Some (plain_form fs)\<rparr>), w'))"

text \<open>
  \<open>Localhost.__init__\<close> with \<open>_set_lxd_dir_env\<close>: the attribute \<open>lxd_socket_dir\<close> is
  set, and \<open>LXD_DIR\<close> written to \<open>app.env\<close>, only when the snap's binary exists.
\<close>

definition Localhost_init :: "('v, 'd) constructor" where
  "Localhost_init X w =
     (let self = base_provider.extend
                   (BaseProvider_init\<lparr>auth_type := Some ''interactive'',
                                       cloud_type := Some cloud_types_LOCALHOST\<rparr>)
                   (localhost.fields None (parse_version X ''2.17'') False None)
      in if snap_lxd_exists X then
           (Localhost (self\<lparr>lxd_socket_dir := Some (path_str (Path ''/var/snap/lxd/common/lxd''))\<rparr>),
            w\<lparr>app_env := (app_env w)(''LXD_DIR'' :=
                             Some (path_str (Path ''/var/snap/lxd/common/lxd'')))\<rparr>)
         else (Localhost self, w))"

text \<open>The registry \<open>Schema\<close> and \<open>load_schema\<close>: a scan in order, the first match wins.\<close>

definition Schema :: "(string \<times> ('v, 'd) constructor) list" where
  "Schema =
     [(''ec2'', AWS_init),
      (''maas'', MAAS_init),
      (''azure'', Azure_init),
      (''gce'', Google_init),
      (''cloudsigma'', CloudSigma_init),
      (''joyent'', Joyent_init),
      (''openstack'', OpenStack_init),
      (''rackspace'', OpenStack_init),
      (''vsphere'', VSphere_init),
      (''oracle'', Oracle_init),
      (''localhost'', Localhost_init),
      (''lxd'', Localhost_init)]"

fun scan_schema ::
  "(string \<times> ('v, 'd) constructor) list \<Rightarrow> string \<Rightarrow> ('v, 'd) ext \<Rightarrow> world \<Rightarrow>
   (exn + ('v, 'd) adapter) \<times> world" where
  "scan_schema [] cld X w = (Inl (SchemaError cld), w)"
| "scan_schema ((k, v) # ss) cld X w =
     (if cld = k then (case v X w of (p, w') \<Rightarrow> (Inr p, w'))
      else scan_schema ss cld X w)"

definition load_schema ::
  "string \<Rightarrow> ('v, 'd) ext \<Rightarrow> world \<Rightarrow> (exn + ('v, 'd) adapter) \<times> world" where
  "load_schema cld X w = scan_schema Schema cld X w"

section \<open>The order of an ordered dictionary, as the specification words it\<close>

text \<open>
  The keys of a list in the order of their first occurrence, and a list with one key
  moved to the front and the others left in their order.
\<close>

fun firsts :: "'a list \<Rightarrow> 'a list" where
  "firsts [] = []"
| "firsts (x # xs) = x # removeAll x (firsts xs)"

definition to_front :: "'a \<Rightarrow> 'a list \<Rightarrow> 'a list" where
  "to_front k xs = (if k \<in> set xs then k # removeAll k xs else xs)"

text \<open>
  The invariant of both loops: the keys are distinct, and the special key is first when
  it is there.
\<close>

definition front_inv :: "'a \<Rightarrow> 'a list \<Rightarrow> bool" where
  "front_inv k ks = (distinct ks \<and> (k \<in> set ks \<longrightarrow> hd ks = k))"

text \<open>One turn of either loop: store the value under the key, then move a special key to the front.\<close>

definition put :: "'k \<Rightarrow> 'k \<Rightarrow> 'v \<Rightarrow> ('k \<times> 'v) list \<Rightarrow> ('k \<times> 'v) list" where
  "put s k v d =
     (if k = s then (k, v) # filter (\<lambda>kv. fst kv \<noteq> k) (od_set k v d) else od_set k v d)"

text \<open>
  The key under which \<open>get_networks\<close> stores a network: none unless its type is
  \<open>bridge\<close> and it has a hashable name.
\<close>

definition bridge_key :: "json \<Rightarrow> json option" where
  "bridge_key info =
     (case subscript info ''type'' of
        Inl e \<Rightarrow> None
      | Inr t \<Rightarrow>
          if t = JStr ''bridge'' then
            (case subscript info ''name'' of
               Inl e \<Rightarrow> None
             | Inr name \<Rightarrow> (case dict_key name of Inl e \<Rightarrow> None | Inr k \<Rightarrow> Some k))
          else None)"

text \<open>The answers to the queries for the listed paths, in order, up to the first failure.\<close>

fun queried :: "('v, 'd) ext \<Rightarrow> json list \<Rightarrow> world \<Rightarrow> json list" where
  "queried X [] w = []"
| "queried X (j # js) w =
     (case j of
        JStr segment \<Rightarrow>
          (case query X segment ''GET'' w of
             (Inl e, w') \<Rightarrow> []
           | (Inr info, w') \<Rightarrow> info # queried X js w')
      | _ \<Rightarrow> [])"

text \<open>The loop body of \<open>get_networks\<close> over a list of answers.\<close>

fun add_bridges :: "json list \<Rightarrow> (json \<times> json) list \<Rightarrow> exn + (json \<times> json) list" where
  "add_bridges [] d = Inr d"
| "add_bridges (i # is) d =
     (case add_bridge i d of Inl e \<Rightarrow> Inl e | Inr d' \<Rightarrow> add_bridges is d')"

text \<open>The key under which \<open>get_storage_pools\<close> stores a pool path.\<close>

fun pool_stem :: "json \<Rightarrow> string" where
  "pool_stem (JStr p) = stem (Path p)"
| "pool_stem _ = []"

section \<open>Fixtures\<close>

text \<open>A store whose widget at address \<open>a\<close> holds \<open>v\<close>, with nothing logged or called.\<close>

definition world_with :: "addr \<Rightarrow> string option \<Rightarrow> world" where
  "world_with a v =
     \<lparr>heap = (\<lambda>_. \<lparr>wclass = StringEditor, wdefault = None, wvalue = None\<rparr>)
               (a := \<lparr>wclass = StringEditor, wdefault = None, wvalue = v\<rparr>),
      next_addr = Suc a, app_env = (\<lambda>_. None), app_log = [], calls = []\<rparr>"

text \<open>A form holding the MAAS \<open>api key\<close> field, its widget at address 0.\<close>

definition oauth_form :: "field list" where
  "oauth_form =
     [\<lparr>label = ''api key'', widget = 0, key = ''maas-oauth'', storable = True,
       error = Some [], required = True, validator = NoValidator\<rparr>]"

text \<open>A validator that rejects with a message and marks the state by raising the next address.\<close>

definition rejecting :: validator_fn where
  "rejecting w = (Inr (False, Some ''bad''), w\<lparr>next_addr := Suc (next_addr w)\<rparr>)"

definition sample_field :: "bool \<Rightarrow> validator \<Rightarrow> field" where
  "sample_field req v =
     \<lparr>label = ''user'', widget = 0, key = ''user'', storable = True,
      error = Some ''stale'', required = req, validator = v\<rparr>"

text \<open>
  A stand-in for the world outside. The LXD tool answers a query with the request path
  itself, and \<open>loads0\<close> reads that answer as the JSON a small server would give: four
  networks (three of them bridges) and three storage pools. The AWS tool reports a
  profile as missing until a write for it is in the trace. \<open>urlparse0\<close> splits a URL
  \<open>http://netloc/path\<close> made of letters, digits and \<open>-._:/\<close> only, and \<open>urljoin0\<close>
  joins \<open>MAAS\<close> to such a URL that has no path; on these the standard library gives the
  same, and on other inputs the stand-ins raise.
\<close>

definition bridge0 :: "string \<Rightarrow> json" where
  "bridge0 n = JObj [(''name'', JStr n), (''type'', JStr ''bridge'')]"

definition loads0 :: "string \<Rightarrow> json option" where
  "loads0 out =
     (if out = ''/1.0'' then
        Some (JObj [(''environment'', JObj [(''server_version'', JStr ''2.0'')])])
      else if out = ''/1.0/networks'' then
        Some (JArr [JStr ''/1.0/networks/br1'', JStr ''/1.0/networks/eth0'',
                    JStr ''/1.0/networks/lxdbr0'', JStr ''/1.0/networks/br2''])
      else if out = ''/1.0/networks/br1'' then Some (bridge0 ''br1'')
      else if out = ''/1.0/networks/eth0'' then
        Some (JObj [(''name'', JStr ''eth0''), (''type'', JStr ''physical'')])
      else if out = ''/1.0/networks/lxdbr0'' then Some (bridge0 ''lxdbr0'')
      else if out = ''/1.0/networks/br2'' then Some (bridge0 ''br2'')
      else if out = ''/1.0/storage-pools'' then
        Some (JArr [JStr ''/1.0/storage-pools/my.pool'', JStr ''/1.0/storage-pools/default'',
                    JStr ''/1.0/storage-pools/my.data''])
      else if out = ''/1.0/storage-pools/my.pool'' then
        Some (JObj [(''name'', JStr ''my.pool'')])
      else if out = ''/1.0/storage-pools/default'' then
        Some (JObj [(''name'', JStr ''default'')])
      else if out = ''/1.0/storage-pools/my.data'' then
        Some (JObj [(''name'', JStr ''my.data'')])
      else None)"

fun wrote_profile :: "string \<Rightarrow> call \<Rightarrow> bool" where
  "wrote_profile p (Arun cmd inp chk) = (cmd = [''aws'', ''configure'', ''--profile'', p])"
| "wrote_profile p _ = False"

definition proc0 ::
  "call list \<Rightarrow> string list \<Rightarrow> string option \<Rightarrow> bool option \<Rightarrow> exn + int \<times> string \<times> string" where
  "proc0 hist cmd inp chk =
     (case cmd of
        [a, b, c, d, e, f] \<Rightarrow>
          if [a, b, c, d] = [''lxc'', ''query'', ''--wait'', ''-X''] then Inr (0, f, [])
          else Inl FileNotFoundError
      | [a, b, c, d, e] \<Rightarrow>
          if [a, b, c, d] = [''aws'', ''configure'', ''list'', ''--profile''] then
            (if list_ex (wrote_profile e) hist then Inr (0, [], [])
             else Inr (255, [], ''The config profile could not be found''))
          else Inl FileNotFoundError
      | [a, b, c, d] \<Rightarrow>
          if [a, b, c] = [''aws'', ''configure'', ''--profile''] then Inr (0, [], [])
          else Inl FileNotFoundError
      | _ \<Rightarrow> Inl FileNotFoundError)"

definition plain_chars :: string where
  "plain_chars = ''abcdefghijklmnopqrstuvwxyzABCDEFGHIJKLMNOPQRSTUVWXYZ0123456789-._:/''"

definition plain :: "string \<Rightarrow> bool" where
  "plain s = list_all (\<lambda>c. List.member plain_chars c) s"

definition urlparse0 :: "string \<Rightarrow> exn + parse_result" where
  "urlparse0 u =
     (if startswith ''http://'' u \<and> plain u then
        Inr \<lparr>netloc = takeWhile (\<lambda>c. c \<noteq> CHR ''/'') (drop 7 u),
             path = dropWhile (\<lambda>c. c \<noteq> CHR ''/'') (drop 7 u),
             geturl = u\<rparr>
      else Inl (OtherError ''urlparse0''))"

definition urljoin0 :: "string \<Rightarrow> string \<Rightarrow> exn + string" where
  "urljoin0 b u =
     (if u = ''MAAS'' \<and> startswith ''http://'' b \<and> plain b \<and> drop 7 b \<noteq> [] \<and>
         CHR ''/'' \<notin> set (drop 7 b)
      then Inr (b @ ''/MAAS'')
      else Inl (OtherError ''urljoin0''))"

text \<open>A form holding the MAAS \<open>endpoint\<close> field, its widget at address 0.\<close>

definition endpoint_form :: "field list" where
  "endpoint_form =
     [\<lparr>label = ''api endpoint (http://example.com:5240/MAAS)'', widget = 0,
       key = ''endpoint'', storable = False, error = Some [], required = True,
       validator = NoValidator\<rparr>]"

definition version0 :: "string \<Rightarrow> nat list" where
  "version0 v =
     (if v = ''2.17'' then [2, 17]
      else if v = ''2.0'' then [2, 0]
      else if v = ''3.0'' then [3, 0]
      else [])"

definition get_cloud0 :: "string \<Rightarrow> exn + cloud_entry" where
  "get_cloud0 n =
     (if n = ''aws'' then
        Inr \<lparr>entry_endpoint = None,
             entry_regions = Some (fmap_of_list [(''us-west-1'', JNull), (''eu-west-1'', JNull),
                                                 (''us-east-1'', JNull)])\<rparr>
      else if n = ''mymaas'' then
        Inr \<lparr>entry_endpoint = Some ''http://h:5240/MAAS'', entry_regions = None\<rparr>
      else Inl LookupError)"

definition ext0 :: "(nat list, string) ext" where
  "ext0 =
     \<lparr>initial_value = (\<lambda>c d. d),
      urlparse = urlparse0,
      urljoin = urljoin0,
      is_valid_hostname = (\<lambda>s. s = ''maas.example.com''),
      ip_address = (\<lambda>s. s = ''192.168.1.5''),
      parse_version = version0,
      version_le = (\<lambda>a b. a \<le> b),
      snap_lxd_exists = False,
      proc = proc0,
      json_loads = loads0,
      get_cloud = get_cloud0,
      get_credential = (\<lambda>c t n. Inr \<lparr>access_key = ''AKIA'', secret_key = ''s3cr3t''\<rparr>),
      client_login = (\<lambda>h c. None),
      client_get_datacenters = (\<lambda>h c. Inr [''dc1'', ''dc2''])\<rparr>"

definition world0 :: world where
  "world0 = world_with 0 None"





text \<open>An AWS provider and a vSphere provider after \<open>load\<close> and \<open>save_form\<close>, and the two
  calls of the AWS tool for the profile \<open>conjure\<close>.\<close>

definition aws0 :: base_provider where
  "aws0 = BaseProvider_init\<lparr>auth_type := Some ''access-key'', cloud := Some ''aws'',
            cloud_type := Some cloud_types_AWS, credential := Some ''conjure''\<rparr>"

definition vsphere0 :: "string vsphere" where
  "vsphere0 =
     base_provider.extend
       (BaseProvider_init\<lparr>auth_type := Some ''userpass'', endpoint := Some ''10.0.0.2'',
                           cloud := Some ''vs'', cloud_type := Some cloud_types_VSPHERE,
                           credential := Some ''admin''\<rparr>)
       (vsphere.fields None)"

text \<open>The stand-in with a vSphere client whose first discovery fails and whose later ones answer.\<close>

definition ext_flaky :: "(nat list, string) ext" where
  "ext_flaky =
     ext0\<lparr>client_get_datacenters :=
            (\<lambda>h c. if List.member h ClientGetDatacenters then Inr [''dc1'', ''dc2'']
                   else Inl (OtherError ''timed out''))\<rparr>"

definition check0 :: call where
  "check0 = Arun [''aws'', ''configure'', ''list'', ''--profile'', ''conjure''] None (Some False)"

definition write0 :: call where
  "write0 = Arun [''aws'', ''configure'', ''--profile'', ''conjure'']
              (Some (''AKIA'' @ newline @ ''s3cr3t'' @ newline @ newline @ newline)) (Some True)"

text \<open>The fields that \<open>OpenStack.__init__\<close> declares: label, widget class and key.\<close>

definition openstack_fields :: "(string \<times> widget_class \<times> string) list" where
  "openstack_fields =
     [(''username'', StringEditor, ''username''),
      (''password'', PasswordEditor, ''password''),
      (''domain name'', StringEditor, ''domain-name''),
      (''project domain name'', StringEditor, ''project-domain-name''),
      (''access key'', StringEditor, ''access-key''),
      (''secret key'', StringEditor, ''secret-key'')]"

section \<open>Properties of the string operations\<close>

lemma split_on_nonempty: "split_on c s \<noteq> []"
  by (induction s) (auto split: list.splits)

lemma length_split_on: "length (split_on c s) = Suc (count_list s c)"
  by (induction s) (auto split: list.splits simp: split_on_nonempty)

lemma split_on_no_sep: "c \<notin> set a \<Longrightarrow> split_on c a = [a]"
  by (induction a) auto

lemma split_on_append: "c \<notin> set a \<Longrightarrow> split_on c (a @ c # r) = a # split_on c r"
  by (induction a) (auto split: list.splits)

lemma split_on_join: "join [c] (split_on c s) = s"
proof (induction s)
  case Nil
  show ?case by simp
next
  case (Cons x xs)
  show ?case
  proof (cases "x = c")
    case True
    with Cons show ?thesis
      by (cases "split_on c xs") (auto simp: split_on_nonempty)
  next
    case False
    with Cons show ?thesis
      by (cases "split_on c xs"; cases "tl (split_on c xs)") (auto simp: split_on_nonempty)
  qed
qed

lemma split_on_parts: "p \<in> set (split_on c s) \<Longrightarrow> c \<notin> set p"
  by (induction s arbitrary: p) (auto split: list.splits if_splits)

lemma three_segments:
  "(length (split_on c s) = 3) =
   (\<exists>a b d. s = a @ c # b @ c # d \<and> c \<notin> set a \<and> c \<notin> set b \<and> c \<notin> set d)"
proof
  assume "length (split_on c s) = 3"
  then obtain a b d where abd: "split_on c s = [a, b, d]"
    by (auto simp: length_Suc_conv numeral_3_eq_3)
  have "join [c] (split_on c s) = s" by (rule split_on_join)
  with abd have "s = a @ c # b @ c # d" by simp
  moreover have "c \<notin> set a" "c \<notin> set b" "c \<notin> set d"
    using split_on_parts[of _ c s] abd by auto
  ultimately show "\<exists>a b d. s = a @ c # b @ c # d \<and> c \<notin> set a \<and> c \<notin> set b \<and> c \<notin> set d"
    by blast
next
  assume "\<exists>a b d. s = a @ c # b @ c # d \<and> c \<notin> set a \<and> c \<notin> set b \<and> c \<notin> set d"
  then show "length (split_on c s) = 3"
    by (auto simp: split_on_append split_on_no_sep)
qed

section \<open>Field.validate\<close>

text \<open>
  Claim C6. \<open>validate\<close> replaces the prior error text in every case. A required field
  whose value is \<open>None\<close> or empty gets the required-field message and \<open>False\<close>, and
  the state is the one before the call whatever the validator attribute holds: the
  validator is not invoked. Otherwise a callable validator is invoked on the state:
  a failed result puts its message into the error text and gives \<open>False\<close>, a passed
  result gives \<open>True\<close> with the error text empty, and an exception goes through. With
  no callable validator the result is \<open>True\<close>. So an optional empty field defers to
  its validator, or passes if it has none.
\<close>

theorem validate_order:
  "(required f \<and> \<not> truthy (field_value f w) \<longrightarrow>
      validate f w =
        (Inr False, f\<lparr>error := Some ''This field is required and cannot be empty.''\<rparr>, w)) \<and>
   (\<not> (required f \<and> \<not> truthy (field_value f w)) \<longrightarrow>
      (\<forall>v msg w'. validator f = Callable v \<and> v w = (Inr (False, msg), w') \<longrightarrow>
         validate f w = (Inr False, f\<lparr>error := msg\<rparr>, w')) \<and>
      (\<forall>v msg w'. validator f = Callable v \<and> v w = (Inr (True, msg), w') \<longrightarrow>
         validate f w = (Inr True, f\<lparr>error := Some []\<rparr>, w')) \<and>
      (\<forall>v e w'. validator f = Callable v \<and> v w = (Inl e, w') \<longrightarrow>
         validate f w = (Inl e, f\<lparr>error := Some []\<rparr>, w')) \<and>
      ((\<forall>v. validator f \<noteq> Callable v) \<longrightarrow>
         validate f w = (Inr True, f\<lparr>error := Some []\<rparr>, w)))"
  by (cases "validator f") (auto simp: validate_def field_value_def)

theorem validate_order_witness:
  "validate (sample_field True (Callable rejecting)) (world_with 0 (Some [])) =
     (Inr False,
      (sample_field True (Callable rejecting))
        \<lparr>error := Some ''This field is required and cannot be empty.''\<rparr>,
      world_with 0 (Some [])) \<and>
   validate (sample_field False (Callable rejecting)) (world_with 0 (Some [])) =
     (Inr False, (sample_field False (Callable rejecting))\<lparr>error := Some ''bad''\<rparr>,
      (world_with 0 (Some []))\<lparr>next_addr := 2\<rparr>) \<and>
   validate (sample_field False NoValidator) (world_with 0 (Some [])) =
     (Inr True, (sample_field False NoValidator)\<lparr>error := Some []\<rparr>, world_with 0 (Some []))"
proof -
  let ?w = "world_with 0 (Some [])"
  have v: "field_value (sample_field r x) ?w = Some []" for r x
    by (simp add: field_value_def sample_field_def world_with_def)
  have a: "required (sample_field True (Callable rejecting)) \<and>
           \<not> truthy (field_value (sample_field True (Callable rejecting)) ?w)"
    by (simp add: v truthy_def) (simp add: sample_field_def)
  have b: "\<not> (required (sample_field False x) \<and> \<not> truthy (field_value (sample_field False x) ?w))" for x
    by (simp add: sample_field_def)
  have c: "validator (sample_field False (Callable rejecting)) = Callable rejecting \<and>
           rejecting ?w = (Inr (False, Some ''bad''), ?w\<lparr>next_addr := 2\<rparr>)"
    by (simp add: sample_field_def rejecting_def world_with_def)
  have d: "\<forall>v. validator (sample_field False NoValidator) \<noteq> Callable v"
    by (simp add: sample_field_def)
  from validate_order[of "sample_field True (Callable rejecting)" ?w] a
  have 1: "validate (sample_field True (Callable rejecting)) ?w =
     (Inr False,
      (sample_field True (Callable rejecting))
        \<lparr>error := Some ''This field is required and cannot be empty.''\<rparr>, ?w)"
    by blast
  from validate_order[of "sample_field False (Callable rejecting)" ?w] b c
  have 2: "validate (sample_field False (Callable rejecting)) ?w =
     (Inr False, (sample_field False (Callable rejecting))\<lparr>error := Some ''bad''\<rparr>,
      ?w\<lparr>next_addr := 2\<rparr>)"
    by blast
  from validate_order[of "sample_field False NoValidator" ?w] b d
  have 3: "validate (sample_field False NoValidator) ?w =
     (Inr True, (sample_field False NoValidator)\<lparr>error := Some []\<rparr>, ?w)"
    by blast
  from 1 2 3 show ?thesis by blast
qed

section \<open>The MAAS API key\<close>

text \<open>
  Claim C8. The validator of the \<open>maas-oauth\<close> field passes exactly when the value
  (\<open>None\<close> counting as the empty string) is three segments without a colon joined by
  two colons, that is when it holds exactly two colons. Every other value is rejected
  with the message that names the shape \<open>aaaaa:bbbbb:cccc\<close>. The state is not
  changed.
\<close>

theorem api_key_three_segments:
  assumes "form_field ''maas-oauth'' fm = Some f"
    and "s = (case field_value f w of None \<Rightarrow> [] | Some x \<Rightarrow> x)"
  shows "(fst (has_correct_api_key fm w) = Inr (True, None)) =
           (\<exists>a b d. s = a @ CHR '':'' # b @ CHR '':'' # d \<and>
              CHR '':'' \<notin> set a \<and> CHR '':'' \<notin> set b \<and> CHR '':'' \<notin> set d) \<and>
         (fst (has_correct_api_key fm w) = Inr (True, None)) =
           (count_list s CHR '':'' = 2) \<and>
         (fst (has_correct_api_key fm w) = Inr (True, None) \<or>
          fst (has_correct_api_key fm w) = Inr (False, Some api_key_msg)) \<and>
         snd (has_correct_api_key fm w) = w \<and>
         contains ''aaaaa:bbbbb:cccc'' api_key_msg"
proof -
  have run: "has_correct_api_key fm w =
      (if length (split_on CHR '':'' s) \<noteq> 3 then (Inr (False, Some api_key_msg), w)
       else (Inr (True, None), w))"
    using assms by (simp add: has_correct_api_key_def)
  have msg: "contains ''aaaaa:bbbbb:cccc'' api_key_msg"
    by (simp add: api_key_msg_def startswith_def)
  have cnt: "(length (split_on CHR '':'' s) = 3) = (count_list s CHR '':'' = 2)"
    by (simp add: length_split_on)
  show ?thesis
    using three_segments[of "CHR '':''" s] cnt msg by (simp add: run)
qed

theorem api_key_three_segments_witness:
  "fst (has_correct_api_key oauth_form (world_with 0 (Some ''a:b:c''))) = Inr (True, None) \<and>
   fst (has_correct_api_key oauth_form (world_with 0 (Some ''a:b''))) =
     Inr (False, Some api_key_msg) \<and>
   fst (has_correct_api_key oauth_form (world_with 0 (Some ''a:b:c:d''))) =
     Inr (False, Some api_key_msg) \<and>
   fst (has_correct_api_key oauth_form (world_with 0 (Some []))) =
     Inr (False, Some api_key_msg)"
proof -
  have f: "form_field ''maas-oauth'' oauth_form = Some (hd oauth_form)"
    by (simp add: oauth_form_def)
  have v: "(case field_value (hd oauth_form) (world_with 0 x) of None \<Rightarrow> [] | Some y \<Rightarrow> y) =
           (case x of None \<Rightarrow> [] | Some y \<Rightarrow> y)" for x
    by (simp add: oauth_form_def field_value_def world_with_def)
  note t = api_key_three_segments[OF f refl]
  have "fst (has_correct_api_key oauth_form (world_with 0 (Some ''a:b:c''))) = Inr (True, None)"
    using t[of "world_with 0 (Some ''a:b:c'')"] by (simp add: v)
  moreover have "fst (has_correct_api_key oauth_form (world_with 0 (Some ''a:b''))) =
     Inr (False, Some api_key_msg)"
    using t[of "world_with 0 (Some ''a:b'')"] by (auto simp: v)
  moreover have "fst (has_correct_api_key oauth_form (world_with 0 (Some ''a:b:c:d''))) =
     Inr (False, Some api_key_msg)"
    using t[of "world_with 0 (Some ''a:b:c:d'')"] by (auto simp: v)
  moreover have "fst (has_correct_api_key oauth_form (world_with 0 (Some []))) =
     Inr (False, Some api_key_msg)"
    using t[of "world_with 0 (Some [])"] by (auto simp: v)
  ultimately show ?thesis by blast
qed

section \<open>The request path of Localhost.query\<close>

lemma Path_1_0: "Path ''/1.0'' = \<lparr>proot = ''/'', pparts = [''1.0'']\<rparr>"
  by (simp add: Path_def splitroot_def)

lemma join_Cons: "join sep (p # ps) = p @ (if ps = [] then [] else sep @ join sep ps)"
  by (cases ps) auto

lemma query_url_relative:
  assumes "\<not> startswith ''/'' segment"
  shows "query_url segment =
           ''/'' @ join ''/'' (''1.0'' # filter (\<lambda>x. x \<noteq> [] \<and> x \<noteq> ''.'')
                                            (split_on CHR ''/'' segment))"
proof -
  from assms have rel: "splitroot segment = ([], segment)"
    by (cases segment) (auto simp: splitroot_def startswith_def)
  from assms have no: "\<not> startswith ''/1.0'' segment"
    by (cases segment) (auto simp: startswith_def)
  have p: "Path segment =
      \<lparr>proot = [], pparts = filter (\<lambda>x. x \<noteq> [] \<and> x \<noteq> ''.'') (split_on CHR ''/'' segment)\<rparr>"
    by (simp add: Path_def rel)
  show ?thesis
    by (simp add: query_url_def no truediv_def Path_1_0 p Let_def path_str_def)
qed

lemma query_url_prefix:
  assumes "startswith ''/1.0'' segment \<or> \<not> startswith ''/'' segment"
  shows "startswith ''/1.0'' (query_url segment)"
proof (cases "startswith ''/1.0'' segment")
  case True
  then show ?thesis by (simp add: query_url_def)
next
  case False
  with assms have "\<not> startswith ''/'' segment" by simp
  then show ?thesis
    by (simp add: query_url_relative join_Cons startswith_def)
qed

lemma query_url_clean:
  assumes "\<not> startswith ''/'' segment"
    and "\<forall>x \<in> set (split_on CHR ''/'' segment). x \<noteq> [] \<and> x \<noteq> ''.''"
  shows "query_url segment = ''/1.0/'' @ segment"
proof -
  from assms(2)
  have "filter (\<lambda>x. x \<noteq> [] \<and> x \<noteq> ''.'') (split_on CHR ''/'' segment) =
        split_on CHR ''/'' segment"
    by (simp add: filter_id_conv)
  moreover have "join ''/'' (split_on CHR ''/'' segment) = segment"
    by (rule split_on_join)
  ultimately show ?thesis
    using assms(1) by (simp add: query_url_relative join_Cons split_on_nonempty)
qed

lemma query_calls:
  "calls (snd (query X segment method w)) =
     calls w @ [Arun [''lxc'', ''query'', ''--wait'', ''-X'', upper method, query_url segment]
                  None None]"
  by (auto simp: query_def arun_def log_to_def Let_def
           split: sum.splits exn.splits option.splits prod.splits)

text \<open>
  Claim C3 says that the request path begins with \<open>/1.0\<close> for every segment. It does
  not for a segment that starts with a slash but not with \<open>/1.0\<close>: joining such a
  segment to \<open>Path('/1.0')\<close> gives the segment alone, and \<open>/networks\<close> is sent as it
  is.
\<close>

theorem query_path_counterexample:
  "calls (snd (query ext0 ''/networks'' ''get'' world0)) =
     [Arun [''lxc'', ''query'', ''--wait'', ''-X'', ''GET'', ''/networks''] None None] \<and>
   \<not> startswith ''/1.0'' ''/networks''"
  by code_simp

text \<open>
  Claim C3, amended. For a segment that starts with \<open>/1.0\<close> or does not start with a
  slash, and for every method, \<open>query\<close> makes one call of the tool, with the method in
  upper case and a path that begins with \<open>/1.0\<close>. The path is the segment itself when
  the segment starts with \<open>/1.0\<close>; otherwise it is \<open>/1.0\<close> followed by a slash and a
  component for each component of the segment that is neither empty nor \<open>.\<close>, which is
  \<open>/1.0/\<close> and the segment when the segment has only such components.
\<close>

theorem query_path_prefixed:
  assumes "startswith ''/1.0'' segment \<or> \<not> startswith ''/'' segment"
  shows "calls (snd (query X segment method w)) =
           calls w @ [Arun [''lxc'', ''query'', ''--wait'', ''-X'', upper method,
                            query_url segment] None None] \<and>
         startswith ''/1.0'' (query_url segment) \<and>
         (startswith ''/1.0'' segment \<longrightarrow> query_url segment = segment) \<and>
         (\<not> startswith ''/1.0'' segment \<longrightarrow>
            query_url segment =
              ''/'' @ join ''/'' (''1.0'' # filter (\<lambda>x. x \<noteq> [] \<and> x \<noteq> ''.'')
                                               (split_on CHR ''/'' segment))) \<and>
         (\<not> startswith ''/1.0'' segment \<and>
          (\<forall>x \<in> set (split_on CHR ''/'' segment). x \<noteq> [] \<and> x \<noteq> ''.'') \<longrightarrow>
            query_url segment = ''/1.0/'' @ segment)"
proof -
  have rel: "\<not> startswith ''/'' segment" if "\<not> startswith ''/1.0'' segment"
    using assms that by blast
  have "startswith ''/1.0'' segment \<longrightarrow> query_url segment = segment"
    by (simp add: query_url_def)
  moreover have "\<not> startswith ''/1.0'' segment \<longrightarrow>
      query_url segment =
        ''/'' @ join ''/'' (''1.0'' # filter (\<lambda>x. x \<noteq> [] \<and> x \<noteq> ''.'')
                                         (split_on CHR ''/'' segment))"
    using rel query_url_relative by blast
  moreover have "\<not> startswith ''/1.0'' segment \<and>
      (\<forall>x \<in> set (split_on CHR ''/'' segment). x \<noteq> [] \<and> x \<noteq> ''.'') \<longrightarrow>
      query_url segment = ''/1.0/'' @ segment"
    using rel query_url_clean by blast
  ultimately show ?thesis
    using query_calls[of X segment "method" w] query_url_prefix[OF assms] by blast
qed

theorem query_path_prefixed_witness:
  "calls (snd (query ext0 ''networks'' ''get'' world0)) =
     [Arun [''lxc'', ''query'', ''--wait'', ''-X'', ''GET'', ''/1.0/networks''] None None] \<and>
   calls (snd (query ext0 ''/1.0/networks/lxdbr0'' ''GET'' world0)) =
     [Arun [''lxc'', ''query'', ''--wait'', ''-X'', ''GET'', ''/1.0/networks/lxdbr0''] None None]"
proof -
  have a: "startswith ''/1.0'' ''networks'' \<or> \<not> startswith ''/'' ''networks''"
    by (simp add: startswith_def)
  have b: "startswith ''/1.0'' ''/1.0/networks/lxdbr0'' \<or>
           \<not> startswith ''/'' ''/1.0/networks/lxdbr0''"
    by (simp add: startswith_def)
  have c: "\<not> startswith ''/1.0'' ''networks'' \<and>
           (\<forall>x \<in> set (split_on CHR ''/'' ''networks''). x \<noteq> [] \<and> x \<noteq> ''.'')"
    by (simp add: startswith_def)
  have d: "startswith ''/1.0'' ''/1.0/networks/lxdbr0''"
    by (simp add: startswith_def)
  have u: "upper ''get'' = ''GET''" "upper ''GET'' = ''GET''"
    by code_simp+
  have e: "calls world0 = []"
    by (simp add: world0_def world_with_def)
  from query_path_prefixed[OF a, of ext0 "''get''" world0] c
  have 1: "calls (snd (query ext0 ''networks'' ''get'' world0)) =
     [Arun [''lxc'', ''query'', ''--wait'', ''-X'', ''GET'', ''/1.0/networks''] None None]"
    by (simp add: u e)
  from query_path_prefixed[OF b, of ext0 "''GET''" world0] d
  have 2: "calls (snd (query ext0 ''/1.0/networks/lxdbr0'' ''GET'' world0)) =
     [Arun [''lxc'', ''query'', ''--wait'', ''-X'', ''GET'', ''/1.0/networks/lxdbr0''] None None]"
    by (simp add: u e)
  from 1 2 show ?thesis by blast
qed

section \<open>Move to front\<close>

lemma set_firsts: "set (firsts xs) = set xs"
  by (induction xs) auto

lemma distinct_firsts: "distinct (firsts xs)"
  by (induction xs) (auto simp: distinct_removeAll)

lemma removeAll_swap: "removeAll a (removeAll b xs) = removeAll b (removeAll a xs)"
  by (induction xs) auto

lemma removeAll_firsts: "removeAll a (firsts xs) = firsts (removeAll a xs)"
proof (induction xs)
  case Nil
  show ?case by simp
next
  case (Cons x xs)
  show ?case
  proof (cases "a = x")
    case True
    have "x \<notin> set (firsts (removeAll x xs))"
      by (simp add: set_firsts)
    then have "removeAll x (firsts (removeAll x xs)) = firsts (removeAll x xs)"
      by (rule removeAll_id)
    with True Cons show ?thesis by simp
  next
    case False
    have "removeAll a (firsts (x # xs)) = x # removeAll a (removeAll x (firsts xs))"
      using False by simp
    also have "\<dots> = x # removeAll x (removeAll a (firsts xs))"
      by (simp add: removeAll_swap)
    also have "\<dots> = firsts (removeAll a (x # xs))"
      using False Cons by simp
    finally show ?thesis .
  qed
qed

lemma firsts_seen: "k \<in> set A \<Longrightarrow> firsts (A @ k # B) = firsts (A @ B)"
proof (induction A)
  case Nil
  then show ?case by simp
next
  case (Cons a A)
  show ?case
  proof (cases "k \<in> set A")
    case True
    with Cons.IH show ?thesis by simp
  next
    case False
    with Cons.prems have "k = a" by simp
    then show ?thesis by (simp add: removeAll_firsts)
  qed
qed

lemma firsts_distinct: "distinct xs \<Longrightarrow> firsts xs = xs"
  by (induction xs) (auto simp: set_firsts)

lemma keys_od_set:
  "map fst (od_set k v d) = (if k \<in> set (map fst d) then map fst d else map fst d @ [k])"
  by (induction d) (auto simp: od_set_def)

lemma map_of_replaced:
  "k \<in> fst ` set d \<Longrightarrow>
   map_of (map (\<lambda>kv. if fst kv = k then (k, v) else kv) d) k = Some v"
  by (induction d) auto

lemma map_of_appended: "k \<notin> fst ` set d \<Longrightarrow> map_of (d @ [(k, v)]) k = Some v"
  by (induction d) auto

lemma map_of_od_set: "map_of (od_set k v d) k = Some v"
proof (cases "k \<in> fst ` set d")
  case True
  then show ?thesis by (simp add: od_set_def map_of_replaced)
next
  case False
  then show ?thesis using map_of_appended[OF False, of v] by (simp add: od_set_def)
qed

lemma keys_filter: "map fst (filter (\<lambda>kv. fst kv \<noteq> k) d) = removeAll k (map fst d)"
  by (induction d) auto

lemma move_to_front_od_set:
  "move_to_front k (od_set k v d) = Inr ((k, v) # filter (\<lambda>kv. fst kv \<noteq> k) (od_set k v d))"
  by (simp add: move_to_front_def map_of_od_set)

lemma to_front_inv: "front_inv k ks \<Longrightarrow> to_front k (firsts ks) = ks"
  by (cases ks) (auto simp: front_inv_def to_front_def firsts_distinct set_firsts)

lemma step_other:
  assumes "front_inv s K" "k \<noteq> s"
  shows "front_inv s (if k \<in> set K then K else K @ [k])"
    and "to_front s (firsts ((if k \<in> set K then K else K @ [k]) @ rest)) =
         to_front s (firsts (K @ k # rest))"
  using assms by (auto simp: front_inv_def firsts_seen hd_append)

lemma to_front_firsts: "s \<in> set xs \<Longrightarrow> to_front s (firsts xs) = s # firsts (removeAll s xs)"
  by (simp add: to_front_def set_firsts removeAll_firsts)

lemma step_special:
  assumes "front_inv s K"
  shows "front_inv s (s # removeAll s (if s \<in> set K then K else K @ [s]))"
    and "to_front s (firsts ((s # removeAll s (if s \<in> set K then K else K @ [s])) @ rest)) =
         to_front s (firsts (K @ s # rest))"
proof -
  let ?K' = "if s \<in> set K then K else K @ [s]"
  show "front_inv s (s # removeAll s ?K')"
    using assms by (auto simp: front_inv_def distinct_removeAll)
  have r: "removeAll s ?K' = removeAll s K"
    by simp
  have "to_front s (firsts ((s # removeAll s ?K') @ rest)) =
        s # firsts (removeAll s ((s # removeAll s ?K') @ rest))"
    by (rule to_front_firsts) simp
  also have "removeAll s ((s # removeAll s ?K') @ rest) = removeAll s K @ removeAll s rest"
    unfolding r by simp
  finally have a: "to_front s (firsts ((s # removeAll s ?K') @ rest)) =
        s # firsts (removeAll s K @ removeAll s rest)" .
  have "to_front s (firsts (K @ s # rest)) = s # firsts (removeAll s (K @ s # rest))"
    by (rule to_front_firsts) simp
  also have "removeAll s (K @ s # rest) = removeAll s K @ removeAll s rest"
    by simp
  finally have b: "to_front s (firsts (K @ s # rest)) =
        s # firsts (removeAll s K @ removeAll s rest)" .
  from a b show "to_front s (firsts ((s # removeAll s ?K') @ rest)) =
         to_front s (firsts (K @ s # rest))"
    by simp
qed

lemma keys_put:
  "map fst (put s k v d) =
     (if k = s then s # removeAll s (if s \<in> set (map fst d) then map fst d else map fst d @ [s])
      else (if k \<in> set (map fst d) then map fst d else map fst d @ [k]))"
  by (simp add: put_def keys_filter keys_od_set)

lemma put_step:
  assumes "front_inv s (map fst d)"
  shows "front_inv s (map fst (put s k v d))"
    and "to_front s (firsts (map fst (put s k v d) @ rest)) =
         to_front s (firsts (map fst d @ k # rest))"
proof -
  have ks: "map fst (put s s v d) =
      s # removeAll s (if s \<in> set (map fst d) then map fst d else map fst d @ [s])"
    by (simp add: keys_put)
  have ko: "map fst (put s k v d) = (if k \<in> set (map fst d) then map fst d else map fst d @ [k])"
    if "k \<noteq> s"
    using that by (simp add: keys_put)
  show "front_inv s (map fst (put s k v d))"
  proof (cases "k = s")
    case True
    show ?thesis unfolding True ks by (rule step_special(1)[OF assms])
  next
    case False
    show ?thesis unfolding ko[OF False] by (rule step_other(1)[OF assms False])
  qed
  show "to_front s (firsts (map fst (put s k v d) @ rest)) =
         to_front s (firsts (map fst d @ k # rest))"
  proof (cases "k = s")
    case True
    show ?thesis unfolding True ks by (rule step_special(2)[OF assms])
  next
    case False
    show ?thesis unfolding ko[OF False] by (rule step_other(2)[OF assms False])
  qed
qed

lemma add_bridge_put:
  assumes "add_bridge info d = Inr d'"
  shows "d' = (case bridge_key info of None \<Rightarrow> d | Some k \<Rightarrow> put (JStr ''lxdbr0'') k info d)"
proof -
  have k: "(name = JStr ''lxdbr0'') = (k = JStr ''lxdbr0'')" if "dict_key name = Inr k" for name k
    using that by (auto simp: dict_key_def split: json.splits if_splits)
  show ?thesis
    using assms
    by (auto simp: add_bridge_def bridge_key_def put_def Let_def move_to_front_od_set k
             split: sum.splits if_splits)
qed

lemma networks_loop_queried:
  "networks_loop X nets d w = (Inr r, w') \<Longrightarrow> add_bridges (queried X nets w) d = Inr r"
proof (induction nets arbitrary: d w)
  case Nil
  then show ?case by simp
next
  case (Cons net nets)
  then show ?case
    by (auto split: json.splits prod.splits sum.splits)
qed

lemma add_bridges_keys:
  assumes "add_bridges infos d = Inr r" "front_inv (JStr ''lxdbr0'') (map fst d)"
  shows "to_front (JStr ''lxdbr0'') (firsts (map fst d @ List.map_filter bridge_key infos @ rest)) =
         to_front (JStr ''lxdbr0'') (firsts (map fst r @ rest)) \<and>
         front_inv (JStr ''lxdbr0'') (map fst r)"
  using assms
proof (induction infos arbitrary: d)
  case Nil
  then show ?case by (simp add: map_filter_simps)
next
  case (Cons i infos)
  from Cons.prems(1) obtain d' where d': "add_bridge i d = Inr d'"
    and rest: "add_bridges infos d' = Inr r"
    by (auto split: sum.splits)
  show ?case
  proof (cases "bridge_key i")
    case None
    with add_bridge_put[OF d'] have "d' = d" by simp
    with Cons.IH[OF rest] Cons.prems(2) None show ?thesis
      by (simp add: map_filter_simps)
  next
    case (Some k)
    with add_bridge_put[OF d'] have p: "d' = put (JStr ''lxdbr0'') k i d" by simp
    have inv: "front_inv (JStr ''lxdbr0'') (map fst d')"
      unfolding p by (rule put_step(1)[OF Cons.prems(2)])
    have "to_front (JStr ''lxdbr0'') (firsts (map fst d @ List.map_filter bridge_key (i # infos) @ rest)) =
          to_front (JStr ''lxdbr0'') (firsts (map fst d @ k # (List.map_filter bridge_key infos @ rest)))"
      using Some by (simp add: map_filter_simps)
    also have "\<dots> = to_front (JStr ''lxdbr0'') (firsts (map fst d' @ (List.map_filter bridge_key infos @ rest)))"
      unfolding p by (rule put_step(2)[OF Cons.prems(2), symmetric])
    finally show ?thesis
      using Cons.IH[OF rest inv] by simp
  qed
qed

lemma pools_loop_step:
  "pools_loop X (JStr p # ps) d w =
     (case query X p ''GET'' w of
        (Inl e, w') \<Rightarrow> (Inl e, w')
      | (Inr info, w') \<Rightarrow> pools_loop X ps (put ''default'' (stem (Path p)) info d) w')"
  by (auto simp: Let_def put_def move_to_front_od_set split: prod.splits sum.splits)

lemma pools_loop_keys:
  assumes "pools_loop X ps d w = (Inr r, w')" "front_inv ''default'' (map fst d)"
  shows "to_front ''default'' (firsts (map fst d @ map pool_stem ps @ rest)) =
         to_front ''default'' (firsts (map fst r @ rest)) \<and>
         front_inv ''default'' (map fst r)"
  using assms
proof (induction ps arbitrary: d w)
  case Nil
  then show ?case by simp
next
  case (Cons pool ps)
  from Cons.prems(1) obtain p where p: "pool = JStr p"
    by (cases pool) auto
  from Cons.prems(1) obtain info w1 where q: "query X p ''GET'' w = (Inr info, w1)"
    and l: "pools_loop X ps (put ''default'' (stem (Path p)) info d) w1 = (Inr r, w')"
    unfolding p pools_loop_step by (auto split: prod.splits sum.splits)
  let ?d = "put ''default'' (stem (Path p)) info d"
  have inv: "front_inv ''default'' (map fst ?d)"
    by (rule put_step(1)[OF Cons.prems(2)])
  have "to_front ''default'' (firsts (map fst d @ map pool_stem (pool # ps) @ rest)) =
        to_front ''default'' (firsts (map fst d @ stem (Path p) # (map pool_stem ps @ rest)))"
    by (simp add: p)
  also have "\<dots> = to_front ''default'' (firsts (map fst ?d @ (map pool_stem ps @ rest)))"
    by (rule put_step(2)[OF Cons.prems(2), symmetric])
  finally show ?case
    using Cons.IH[OF l inv] by simp
qed

text \<open>
  When \<open>get_networks\<close> returns, the keys of the result are the keys of the bridges
  among the answers, in the order of their first occurrence, with \<open>lxdbr0\<close> moved to
  the front if it is there.
\<close>

lemma get_networks_order:
  assumes "get_networks X w = (Inr r, w')"
  shows "\<exists>networks w1 nets.
           query X ''networks'' ''GET'' w = (Inr networks, w1) \<and> iter_json networks = Inr nets \<and>
           map fst r =
             to_front (JStr ''lxdbr0'') (firsts (List.map_filter bridge_key (queried X nets w1)))"
proof -
  from assms obtain networks w1 nets where q: "query X ''networks'' ''GET'' w = (Inr networks, w1)"
    and i: "iter_json networks = Inr nets"
    and l: "networks_loop X nets [] w1 = (Inr r, w')"
    by (auto simp: get_networks_def split: prod.splits sum.splits)
  have inv0: "front_inv (JStr ''lxdbr0'') (map fst ([] :: (json \<times> json) list))"
    by (simp add: front_inv_def)
  from add_bridges_keys[OF networks_loop_queried[OF l] inv0, of "[]"]
  have "to_front (JStr ''lxdbr0'') (firsts (List.map_filter bridge_key (queried X nets w1))) =
        to_front (JStr ''lxdbr0'') (firsts (map fst r))"
    and "front_inv (JStr ''lxdbr0'') (map fst r)"
    by simp_all
  then have "map fst r =
      to_front (JStr ''lxdbr0'') (firsts (List.map_filter bridge_key (queried X nets w1)))"
    by (simp add: to_front_inv)
  with q i show ?thesis by blast
qed

text \<open>
  When \<open>get_storage_pools\<close> returns, the keys of the result are the stems of the pool
  paths in the order of their first occurrence, with \<open>default\<close> moved to the front if
  it is there.
\<close>

lemma get_storage_pools_order:
  assumes "get_storage_pools X w = (Inr r, w')"
  shows "\<exists>pools w1 ps.
           query X ''storage-pools'' ''GET'' w = (Inr pools, w1) \<and> iter_json pools = Inr ps \<and>
           map fst r = to_front ''default'' (firsts (map pool_stem ps))"
proof -
  from assms obtain pools w1 ps where q: "query X ''storage-pools'' ''GET'' w = (Inr pools, w1)"
    and i: "iter_json pools = Inr ps"
    and l: "pools_loop X ps [] w1 = (Inr r, w')"
    by (auto simp: get_storage_pools_def split: prod.splits sum.splits)
  have inv0: "front_inv ''default'' (map fst ([] :: (string \<times> json) list))"
    by (simp add: front_inv_def)
  from pools_loop_keys[OF l inv0, of "[]"]
  have "to_front ''default'' (firsts (map pool_stem ps)) = to_front ''default'' (firsts (map fst r))"
    and "front_inv ''default'' (map fst r)"
    by simp_all
  then have "map fst r = to_front ''default'' (firsts (map pool_stem ps))"
    by (simp add: to_front_inv)
  with q i show ?thesis by blast
qed

section \<open>Networks and storage pools\<close>

text \<open>
  Claim C2 on the stand-in server. Its bridges are \<open>br1\<close>, \<open>lxdbr0\<close> and \<open>br2\<close> in
  this order, with a network \<open>eth0\<close> that is not a bridge between them:
  \<open>get_networks\<close> gives the bridges by name, \<open>lxdbr0\<close> first and the others in the
  order they came.
\<close>

lemma get_networks_example:
  "fst (get_networks ext0 world0) =
     Inr [(JStr ''lxdbr0'', bridge0 ''lxdbr0''), (JStr ''br1'', bridge0 ''br1''),
          (JStr ''br2'', bridge0 ''br2'')]"
  by code_simp

text \<open>
  Claim C2 fails for \<open>get_storage_pools\<close>. The key of a pool is the stem of its path,
  which is the name cut at its last dot. The server has the pools \<open>my.pool\<close>,
  \<open>default\<close> and \<open>my.data\<close>: the result has the key \<open>my\<close> for both dotted names, so
  it holds two entries for three pools, and the entry \<open>my\<close> is the pool \<open>my.data\<close>.
\<close>

theorem storage_pools_keyed_by_stem:
  "fst (get_storage_pools ext0 world0) =
     Inr [(''default'', JObj [(''name'', JStr ''default'')]),
          (''my'', JObj [(''name'', JStr ''my.data'')])]"
  by code_simp

section \<open>Compatibility of the LXD server\<close>






section \<open>AWS.configure_tools\<close>

text \<open>
  Claim C4, for a credential that the store holds and a profile name \<open>profile\<close>.
  \<open>r\<close> is what the check \<open>aws configure list --profile profile\<close> does and \<open>r2\<close> what
  the write \<open>aws configure --profile profile\<close> does after it. When the check exits
  with zero, the check is the only call made. When it exits with another code, the
  calls made are the check and then one write, fed the access key and the secret key
  as two lines and two empty lines, with \<open>check=True\<close>. A \<open>CalledProcessError\<close> of
  the write (its exit code was not zero) is logged with its error stream and raised
  again; a write that returns ends the method with nothing logged.
\<close>

theorem configure_tools_idempotent:
  assumes "get_credential X (cloud self) (cloud_type self) (credential self) = Inr cred"
    and "credential self = Some profile"
    and "check_cmd = [''aws'', ''configure'', ''list'', ''--profile'', profile]"
    and "write_cmd = [''aws'', ''configure'', ''--profile'', profile]"
    and "keys = access_key cred @ newline @ secret_key cred @ newline @ newline @ newline"
    and "r = proc X (calls w) check_cmd None (Some False)"
    and "r2 = proc X (calls w @ [Arun check_cmd None (Some False)]) write_cmd (Some keys) (Some True)"
  shows "(\<forall>out err. r = Inr (0, out, err) \<longrightarrow>
            configure_tools X self w =
              (Inr (), w\<lparr>calls := calls w @ [Arun check_cmd None (Some False)]\<rparr>)) \<and>
         (\<forall>ret out err. r = Inr (ret, out, err) \<and> ret \<noteq> 0 \<longrightarrow>
            calls (snd (configure_tools X self w)) =
              calls w @ [Arun check_cmd None (Some False), Arun write_cmd (Some keys) (Some True)] \<and>
            (\<forall>rc out2 err2. r2 = Inl (CalledProcessError rc out2 err2) \<longrightarrow>
               fst (configure_tools X self w) = Inl (CalledProcessError rc out2 err2) \<and>
               app_log (snd (configure_tools X self w)) =
                 app_log w @ [Log Error (''Failed to configure AWS CLI profile: '' @ err2)]) \<and>
            (\<forall>x. r2 = Inr x \<longrightarrow>
               fst (configure_tools X self w) = Inr () \<and>
               app_log (snd (configure_tools X self w)) = app_log w))"
  using assms
  by (auto simp: configure_tools_def arun_def reraise_logged_def log_to_def
           split: sum.splits exn.splits prod.splits)

theorem configure_tools_idempotent_witness:
  "fst (configure_tools ext0 aws0 world0) = Inr () \<and>
   calls (snd (configure_tools ext0 aws0 world0)) = [check0, write0] \<and>
   calls (snd (configure_tools ext0 aws0 (snd (configure_tools ext0 aws0 world0)))) =
     [check0, write0, check0]"
proof -
  let ?cred = "\<lparr>access_key = ''AKIA'', secret_key = ''s3cr3t''\<rparr>"
  let ?check = "[''aws'', ''configure'', ''list'', ''--profile'', ''conjure'']"
  let ?wr = "[''aws'', ''configure'', ''--profile'', ''conjure'']"
  let ?keys = "access_key ?cred @ newline @ secret_key ?cred @ newline @ newline @ newline"
  let ?w1 = "snd (configure_tools ext0 aws0 world0)"
  have g: "get_credential ext0 (cloud aws0) (cloud_type aws0) (credential aws0) = Inr ?cred"
    by (simp add: ext0_def)
  have p: "credential aws0 = Some ''conjure''"
    by (simp add: aws0_def)
  have c0: "calls world0 = []"
    by (simp add: world0_def world_with_def)
  note t = configure_tools_idempotent[OF g p refl refl refl refl refl]
  have r: "proc ext0 (calls world0) ?check None (Some False) =
             Inr (255, [], ''The config profile could not be found'')"
    by (simp add: ext0_def proc0_def c0)
  have r2: "proc ext0 (calls world0 @ [Arun ?check None (Some False)]) ?wr (Some ?keys)
              (Some True) = Inr (0, [], [])"
    by (simp add: ext0_def proc0_def)
  from t[of world0, THEN conjunct2, rule_format, of 255 "[]" "''The config profile could not be found''"] r
  have a: "calls ?w1 = calls world0 @ [Arun ?check None (Some False), Arun ?wr (Some ?keys) (Some True)]"
    and b: "\<forall>x. proc ext0 (calls world0 @ [Arun ?check None (Some False)]) ?wr (Some ?keys)
              (Some True) = Inr x \<longrightarrow> fst (configure_tools ext0 aws0 world0) = Inr () \<and>
               app_log ?w1 = app_log world0"
    by simp_all
  from b r2 have 1: "fst (configure_tools ext0 aws0 world0) = Inr ()"
    by simp
  from a have 2: "calls ?w1 = [check0, write0]"
    by (simp add: c0 check0_def write0_def)
  have pe: "proc ext0 = proc0"
    by (simp add: ext0_def)
  have r': "proc ext0 (calls ?w1) ?check None (Some False) = Inr (0, [], [])"
    by (simp add: pe 2 proc0_def check0_def write0_def)
  from t[of ?w1, THEN conjunct1, rule_format, of "[]" "[]"] r'
  have "configure_tools ext0 aws0 ?w1 = (Inr (), ?w1\<lparr>calls := calls ?w1 @ [Arun ?check None (Some False)]\<rparr>)"
    by simp
  then have 3: "calls (snd (configure_tools ext0 aws0 ?w1)) = [check0, write0, check0]"
    by (simp add: 2) (simp add: check0_def)
  from 1 2 3 show ?thesis by simp
qed

section \<open>VSphere.get_datacenters\<close>

text \<open>
  Claim C5 says that two calls make at most one discovery call, for every provider. They
  make two when the discovery of the first call raises: nothing is cached then, and the
  second call, already logged in, fetches again.
\<close>

theorem get_datacenters_twice_counterexample:
  "fst (get_datacenters ext_flaky vsphere0 world0) = Inl (OtherError ''timed out'') \<and>
   fst (get_datacenters ext_flaky (fst (snd (get_datacenters ext_flaky vsphere0 world0)))
          (snd (snd (get_datacenters ext_flaky vsphere0 world0)))) = Inr [''dc1'', ''dc2''] \<and>
   calls (snd (snd (get_datacenters ext_flaky
                      (fst (snd (get_datacenters ext_flaky vsphere0 world0)))
                      (snd (snd (get_datacenters ext_flaky vsphere0 world0)))))) =
     [ClientLogin, ClientGetDatacenters, ClientGetDatacenters]"
  by code_simp

text \<open>
  Claim C5, amended. A call that returns a list leaves it in the cache, and every later
  call on the provider, in any state of the world, returns that list and changes
  neither the provider nor the world, so it makes no discovery call and no login. When
  the cache was empty, the call that returns made exactly one discovery call, its last
  call, and the list returned and cached is the list that call gave; when the cache
  held a list, that list is returned and nothing changes. A call that raises had an
  empty cache and leaves it empty.
\<close>

theorem get_datacenters_cached:
  assumes "get_datacenters X self w = (r, self1, w1)"
  shows "(\<forall>ds. r = Inr ds \<longrightarrow>
            datacenters self1 = Some ds \<and>
            (\<forall>X2 w2. get_datacenters X2 self1 w2 = (Inr ds, self1, w2)) \<and>
            count_list (calls w1) ClientGetDatacenters \<le>
              Suc (count_list (calls w) ClientGetDatacenters) \<and>
            (datacenters self = None \<longrightarrow>
               count_list (calls w1) ClientGetDatacenters =
                 Suc (count_list (calls w) ClientGetDatacenters) \<and>
               (\<exists>c h. client self1 = Some c \<and> calls w1 = h @ [ClientGetDatacenters] \<and>
                  client_get_datacenters X h c = Inr ds)) \<and>
            (\<forall>ds0. datacenters self = Some ds0 \<longrightarrow> ds = ds0 \<and> self1 = self \<and> w1 = w)) \<and>
         (\<forall>e. r = Inl e \<longrightarrow> datacenters self = None \<and> datacenters self1 = None)"
proof -
  have cached: "get_datacenters X2 s w2 = (Inr ds, s, w2)" if "datacenters s = Some ds" for X2 s w2 ds
    using that by (simp add: get_datacenters_def)
  have d: "datacenters self1 = Some ds" if "r = Inr ds" for ds
    using assms that
    by (auto simp: get_datacenters_def login_def Let_def
             split: option.splits sum.splits if_splits prod.splits)
  have c: "count_list (calls w1) ClientGetDatacenters \<le>
           Suc (count_list (calls w) ClientGetDatacenters)" if "r = Inr ds" for ds
    using assms that
    by (auto simp: get_datacenters_def login_def Let_def
             split: option.splits sum.splits if_splits prod.splits)
  have e: "count_list (calls w1) ClientGetDatacenters =
             Suc (count_list (calls w) ClientGetDatacenters)"
    if "r = Inr ds" "datacenters self = None" for ds
    using assms that
    by (auto simp: get_datacenters_def login_def Let_def
             split: option.splits sum.splits if_splits prod.splits)
  have f: "\<exists>c h. client self1 = Some c \<and> calls w1 = h @ [ClientGetDatacenters] \<and>
             client_get_datacenters X h c = Inr ds"
    if "r = Inr ds" "datacenters self = None" for ds
    using assms that
    by (auto simp: get_datacenters_def login_def Let_def
             split: option.splits sum.splits if_splits prod.splits)
  have g: "ds = ds0 \<and> self1 = self \<and> w1 = w" if "r = Inr ds" "datacenters self = Some ds0" for ds ds0
    using assms that by (simp add: get_datacenters_def)
  have n: "datacenters self = None \<and> datacenters self1 = None" if "r = Inl e" for e
    using assms that
    by (auto simp: get_datacenters_def login_def Let_def
             split: option.splits sum.splits if_splits prod.splits)
  show ?thesis
  proof (intro conjI allI impI)
    fix ds assume r: "r = Inr ds"
    show "datacenters self1 = Some ds" by (rule d[OF r])
    show "get_datacenters X2 self1 w2 = (Inr ds, self1, w2)" for X2 w2
      by (rule cached[OF d[OF r]])
    show "count_list (calls w1) ClientGetDatacenters \<le>
              Suc (count_list (calls w) ClientGetDatacenters)" by (rule c[OF r])
    show "count_list (calls w1) ClientGetDatacenters =
                 Suc (count_list (calls w) ClientGetDatacenters)" if "datacenters self = None"
      by (rule e[OF r that])
    show "\<exists>c h. client self1 = Some c \<and> calls w1 = h @ [ClientGetDatacenters] \<and>
                  client_get_datacenters X h c = Inr ds" if "datacenters self = None"
      by (rule f[OF r that])
    show "ds = ds0" if "datacenters self = Some ds0" for ds0
      using g[OF r that] by simp
    show "self1 = self" if "datacenters self = Some ds0" for ds0
      using g[OF r that] by simp
    show "w1 = w" if "datacenters self = Some ds0" for ds0
      using g[OF r that] by simp
  next
    fix e assume "r = Inl e"
    then show "datacenters self = None" "datacenters self1 = None"
      using n by simp_all
  qed
qed

theorem get_datacenters_cached_witness:
  "fst (get_datacenters ext0 vsphere0 world0) = Inr [''dc1'', ''dc2''] \<and>
   calls (snd (snd (get_datacenters ext0 vsphere0 world0))) = [ClientLogin, ClientGetDatacenters] \<and>
   client_get_datacenters ext0 [ClientLogin]
       (the (client (fst (snd (get_datacenters ext0 vsphere0 world0))))) =
     fst (get_datacenters ext0 vsphere0 world0) \<and>
   get_datacenters ext0 (fst (snd (get_datacenters ext0 vsphere0 world0)))
       (snd (snd (get_datacenters ext0 vsphere0 world0))) =
     get_datacenters ext0 vsphere0 world0"
proof -
  obtain s1 w1 where run: "get_datacenters ext0 vsphere0 world0 = (Inr [''dc1'', ''dc2''], s1, w1)"
    and tr: "calls w1 = [ClientLogin, ClientGetDatacenters]"
    by (simp add: get_datacenters_def login_def Let_def vsphere0_def ext0_def
          BaseProvider_init_def base_provider.extend_def vsphere.fields_def world0_def
          world_with_def)
  have none: "datacenters vsphere0 = None"
    by (simp add: vsphere0_def base_provider.extend_def vsphere.fields_def)
  note t = get_datacenters_cached[OF run, THEN conjunct1, rule_format, OF refl]
  have again: "get_datacenters ext0 s1 w1 = (Inr [''dc1'', ''dc2''], s1, w1)"
    by (rule t[THEN conjunct2, THEN conjunct1, rule_format])
  from t[THEN conjunct2, THEN conjunct2, THEN conjunct2, THEN conjunct1, THEN mp, OF none,
         THEN conjunct2]
  obtain c h where c: "client s1 = Some c"
    and h: "calls w1 = h @ [ClientGetDatacenters]"
    and fetched: "client_get_datacenters ext0 h c = Inr [''dc1'', ''dc2'']"
    by (elim exE conjE)
  from h tr have "h = [ClientLogin]" by simp
  with fetched c have "client_get_datacenters ext0 [ClientLogin] (the (client s1)) =
      Inr [''dc1'', ''dc2'']"
    by simp
  with run tr again show ?thesis by simp
qed

section \<open>BaseProvider.load\<close>

lemma sorted_list_of_fset_sorted:
  "sorted (sorted_list_of_fset S) \<and> distinct (sorted_list_of_fset S)"
  by (simp add: sorted_list_of_fset.rep_eq)

text \<open>
  Claim C7. When the registry has the cloud, \<open>load\<close> sets \<open>cloud\<close> to the name,
  \<open>endpoint\<close> to the entry's endpoint (\<open>None\<close> when the entry has none) and
  \<open>regions\<close> to the keys of the entry's region map in ascending order (empty when the
  entry has no map). When the lookup misses (\<open>LookupError\<close>), \<open>load\<close> raises
  \<open>SchemaErrorUnknownCloud\<close> and the provider is as it was.
\<close>

theorem load_cloud:
  "(\<forall>c. get_cloud X name = Inr c \<longrightarrow>
      load X name self =
        (Inr (), self\<lparr>cloud := Some name, endpoint := entry_endpoint c,
                       regions := (case entry_regions c of
                                     None \<Rightarrow> []
                                   | Some r \<Rightarrow> sorted_list_of_fset (fmdom r))\<rparr>) \<and>
      sorted (regions (snd (load X name self))) \<and>
      distinct (regions (snd (load X name self))) \<and>
      set (regions (snd (load X name self))) =
        (case entry_regions c of None \<Rightarrow> {} | Some r \<Rightarrow> fset (fmdom r))) \<and>
   (get_cloud X name = Inl LookupError \<longrightarrow>
      fst (load X name self) =
        Inl (SchemaErrorUnknownCloud
              (''Unknown cloud: '' @ name @ '', not updating provider attributes'')) \<and>
      snd (load X name self) = self)"
  by (auto simp: load_def sorted_list_of_fset_sorted split: option.splits)

theorem load_cloud_witness:
  "load ext0 ''aws'' BaseProvider_init =
     (Inr (), BaseProvider_init\<lparr>cloud := Some ''aws'', endpoint := None,
                regions := [''eu-west-1'', ''us-east-1'', ''us-west-1'']\<rparr>) \<and>
   load ext0 ''mymaas'' BaseProvider_init =
     (Inr (), BaseProvider_init\<lparr>cloud := Some ''mymaas'',
                endpoint := Some ''http://h:5240/MAAS'', regions := []\<rparr>) \<and>
   load ext0 ''nowhere'' BaseProvider_init =
     (Inl (SchemaErrorUnknownCloud ''Unknown cloud: nowhere, not updating provider attributes''),
      BaseProvider_init)"
proof -
  let ?aws = "\<lparr>entry_endpoint = None,
             entry_regions = Some (fmap_of_list [(''us-west-1'', JNull), (''eu-west-1'', JNull),
                                                 (''us-east-1'', JNull)])\<rparr>"
  let ?maas = "\<lparr>entry_endpoint = Some ''http://h:5240/MAAS'', entry_regions = None\<rparr>"
  have a: "get_cloud ext0 ''aws'' = Inr ?aws"
    by (simp add: ext0_def get_cloud0_def)
  have b: "get_cloud ext0 ''mymaas'' = Inr ?maas"
    by (simp add: ext0_def get_cloud0_def)
  have c: "get_cloud ext0 ''nowhere'' = Inl LookupError"
    by (simp add: ext0_def get_cloud0_def)
  have k: "sorted_list_of_fset (fmdom (fmap_of_list [(''us-west-1'', JNull), (''eu-west-1'', JNull),
                                                 (''us-east-1'', JNull)])) =
           [''eu-west-1'', ''us-east-1'', ''us-west-1'']"
    by code_simp
  then have k': "sorted_list_of_fset {|''us-west-1'', ''eu-west-1'', ''us-east-1''|} =
           [''eu-west-1'', ''us-east-1'', ''us-west-1'']"
    by simp
  from load_cloud[of ext0 "''aws''" BaseProvider_init, THEN conjunct1, rule_format, OF a]
  have 1: "load ext0 ''aws'' BaseProvider_init =
     (Inr (), BaseProvider_init\<lparr>cloud := Some ''aws'', endpoint := None,
                regions := [''eu-west-1'', ''us-east-1'', ''us-west-1'']\<rparr>)"
    by (simp add: k')
  from load_cloud[of ext0 "''mymaas''" BaseProvider_init, THEN conjunct1, rule_format, OF b]
  have 2: "load ext0 ''mymaas'' BaseProvider_init =
     (Inr (), BaseProvider_init\<lparr>cloud := Some ''mymaas'',
                endpoint := Some ''http://h:5240/MAAS'', regions := []\<rparr>)"
    by simp
  from load_cloud[of ext0 "''nowhere''" BaseProvider_init, THEN conjunct2, rule_format, OF c]
  have 3: "load ext0 ''nowhere'' BaseProvider_init =
     (Inl (SchemaErrorUnknownCloud ''Unknown cloud: nowhere, not updating provider attributes''),
      BaseProvider_init)"
    by (simp add: prod_eq_iff)
  from 1 2 3 show ?thesis by simp
qed

section \<open>The registry\<close>

lemma scan_rackspace:
  "scan_schema Schema ''rackspace'' X w = (case OpenStack_init X w of (p, w') \<Rightarrow> (Inr p, w'))"
  by (simp add: Schema_def)

lemma scan_openstack:
  "scan_schema Schema ''openstack'' X w = (case OpenStack_init X w of (p, w') \<Rightarrow> (Inr p, w'))"
  by (simp add: Schema_def)

lemma OpenStack_init_fields:
  "\<exists>p w'. OpenStack_init X w = (OpenStack p, w') \<and>
      auth_type p = Some ''userpass'' \<and> cloud_type p = Some ''openstack'' \<and>
      (\<exists>fs. form p = Some fs \<and>
         map (\<lambda>f. (label f, wclass (heap w' (widget f)), key f)) fs = openstack_fields)"
  by (simp add: OpenStack_init_def new_widget_def plain_form_def with_validator_def
        BaseProvider_init_def cloud_types_OPENSTACK_def openstack_fields_def
        field_attrs.extend_def field.fields_def)

text \<open>
  Claim C9. The entries \<open>rackspace\<close> and \<open>openstack\<close> of the registry hold the same
  constructor, and from the same state \<open>load_schema\<close> gives the same result for both:
  an \<open>OpenStack\<close> adapter with the auth type \<open>userpass\<close>, the cloud type
  \<open>openstack\<close> and the six fields of \<open>openstack_fields\<close> in this order, with these
  labels, widget classes and keys.
\<close>

theorem rackspace_is_openstack:
  fixes X :: "('v, 'd) ext"
  shows "map_of Schema ''rackspace'' = Some (OpenStack_init :: ('v, 'd) constructor) \<and>
   map_of Schema ''openstack'' = Some (OpenStack_init :: ('v, 'd) constructor) \<and>
   load_schema ''rackspace'' X w = load_schema ''openstack'' X w \<and>
   (\<exists>p w'. load_schema ''rackspace'' X w = (Inr (OpenStack p), w') \<and>
      auth_type p = Some ''userpass'' \<and> cloud_type p = Some ''openstack'' \<and>
      (\<exists>fs. form p = Some fs \<and>
         map (\<lambda>f. (label f, wclass (heap w' (widget f)), key f)) fs = openstack_fields))"
proof -
  obtain p w' where i: "OpenStack_init X w = (OpenStack p, w')"
    and a: "auth_type p = Some ''userpass''" "cloud_type p = Some ''openstack''"
    and f: "\<exists>fs. form p = Some fs \<and>
         map (\<lambda>f. (label f, wclass (heap w' (widget f)), key f)) fs = openstack_fields"
    using OpenStack_init_fields[of X w] by blast
  have "load_schema ''rackspace'' X w = (Inr (OpenStack p), w')"
    by (simp add: load_schema_def scan_rackspace i)
  moreover have "load_schema ''openstack'' X w = (Inr (OpenStack p), w')"
    by (simp add: load_schema_def scan_openstack i)
  moreover have "map_of Schema ''rackspace'' = Some (OpenStack_init :: ('v, 'd) constructor)"
    "map_of Schema ''openstack'' = Some (OpenStack_init :: ('v, 'd) constructor)"
    by (simp_all add: Schema_def)
  ultimately show ?thesis using a f by auto
qed

theorem rackspace_is_openstack_witness:
  "load_schema ''rackspace'' ext0 world0 = load_schema ''openstack'' ext0 world0 \<and>
   map (\<lambda>f. (label f, wclass (heap (snd (load_schema ''rackspace'' ext0 world0)) (widget f)), key f))
     (case fst (load_schema ''rackspace'' ext0 world0) of
        Inr (OpenStack p) \<Rightarrow> the (form p) | _ \<Rightarrow> []) = openstack_fields"
proof -
  from rackspace_is_openstack[of ext0 world0]
  obtain p w' fs where e: "load_schema ''rackspace'' ext0 world0 = load_schema ''openstack'' ext0 world0"
    and l: "load_schema ''rackspace'' ext0 world0 = (Inr (OpenStack p), w')"
    and f: "form p = Some fs"
    and m: "map (\<lambda>f. (label f, wclass (heap w' (widget f)), key f)) fs = openstack_fields"
    by blast
  from e l have l2: "load_schema ''openstack'' ext0 world0 = (Inr (OpenStack p), w')"
    by simp
  show ?thesis
    by (simp add: l l2 f m)
qed

text \<open>An identifier that the registry does not hold raises \<open>SchemaError\<close> with it.\<close>

lemma load_schema_unknown:
  "load_schema ''doesnotexist'' X w = (Inl (SchemaError ''doesnotexist''), w)"
  by (simp add: load_schema_def Schema_def)

section \<open>The MAAS endpoint\<close>

text \<open>
  Claim C1 fails on the branch for URLs. The docstring of the validator says that a URL
  is checked to end in the \<open>/MAAS\<close> endpoint, but the code only tests whether \<open>MAAS\<close>
  occurs in the path. The URL of the MAAS API, \<open>http://h:5240/MAAS/api/2.0/\<close>, is
  accepted and the stored value stays as entered: it does not end in \<open>/MAAS\<close>.
\<close>

theorem endpoint_accepts_api_url:
  "fst (has_correct_endpoint ext0 endpoint_form
          (world_with 0 (Some ''http://h:5240/MAAS/api/2.0/''))) = Inr (True, None) \<and>
   field_value (hd endpoint_form)
     (snd (has_correct_endpoint ext0 endpoint_form
             (world_with 0 (Some ''http://h:5240/MAAS/api/2.0/'')))) =
     Some ''http://h:5240/MAAS/api/2.0/'' \<and>
   \<not> endswith ''/MAAS'' ''http://h:5240/MAAS/api/2.0/''"
  by code_simp

text \<open>
  What the accepting branches store, for a form with an \<open>endpoint\<close> field whose value
  is \<open>e\<close>. A value that starts with \<open>http\<close> and parses with a network location is
  kept when its path holds \<open>MAAS\<close>, and otherwise replaced by what \<open>urljoin\<close> gives for
  the URL and \<open>MAAS\<close>. A value that does not start with \<open>http\<close> and is a valid
  hostname is replaced by what \<open>urljoin\<close> gives for \<open>http://e:5240\<close>. Otherwise a
  value \<open>ip:port\<close> or \<open>ip\<close> whose \<open>ip\<close> is accepted is replaced by what \<open>urljoin\<close>
  gives for \<open>http://ip:port\<close>, with the port 5240 when none is given. A stored value
  that starts with \<open>http\<close> and parses with a network location and a path holding
  \<open>MAAS\<close> passes again unchanged.
\<close>

lemma endpoint_branches:
  assumes "form_field ''endpoint'' fm = Some f"
    and "field_value f w = Some e"
  shows "(startswith ''http'' e \<longrightarrow>
           (\<forall>u. urlparse X e = Inr u \<and> netloc u \<noteq> [] \<and> contains ''MAAS'' (path u) \<longrightarrow>
              has_correct_endpoint X fm w = (Inr (True, None), w)) \<and>
           (\<forall>u v. urlparse X e = Inr u \<and> netloc u \<noteq> [] \<and> \<not> contains ''MAAS'' (path u) \<and>
              urljoin X (geturl u) ''MAAS'' = Inr v \<longrightarrow>
              has_correct_endpoint X fm w = (Inr (True, None), set_field_value f (Some v) w))) \<and>
         (\<not> startswith ''http'' e \<and> is_valid_hostname X e \<longrightarrow>
           (\<forall>v. urljoin X (''http://'' @ e @ '':5240'') ''MAAS'' = Inr v \<longrightarrow>
              has_correct_endpoint X fm w = (Inr (True, None), set_field_value f (Some v) w))) \<and>
         (\<not> startswith ''http'' e \<and> \<not> is_valid_hostname X e \<longrightarrow>
           (\<forall>ip port v. e = ip @ '':'' @ port \<and> CHR '':'' \<notin> set ip \<and> CHR '':'' \<notin> set port \<and>
              ip_address X ip \<and> urljoin X (''http://'' @ ip @ '':'' @ port) ''MAAS'' = Inr v \<longrightarrow>
              has_correct_endpoint X fm w = (Inr (True, None), set_field_value f (Some v) w)) \<and>
           (\<forall>v. CHR '':'' \<notin> set e \<and> ip_address X e \<and>
              urljoin X (''http://'' @ e @ '':5240'') ''MAAS'' = Inr v \<longrightarrow>
              has_correct_endpoint X fm w = (Inr (True, None), set_field_value f (Some v) w))) \<and>
         (\<forall>v. field_value f (set_field_value f (Some v) w) = Some v) \<and>
         (\<forall>v u. startswith ''http'' v \<and> urlparse X v = Inr u \<and> netloc u \<noteq> [] \<and>
            contains ''MAAS'' (path u) \<longrightarrow>
            has_correct_endpoint X fm (set_field_value f (Some v) w) =
              (Inr (True, None), set_field_value f (Some v) w))"
proof -
  have stored: "field_value f (set_field_value f (Some v) w') = Some v" for v w'
    by (simp add: field_value_def set_field_value_def)
  have kept: "has_correct_endpoint X fm w' = (Inr (True, None), w')"
    if "field_value f w' = Some v" "startswith ''http'' v" "urlparse X v = Inr u"
       "netloc u \<noteq> []" "contains ''MAAS'' (path u)" for v u w'
    using that assms(1) by (simp add: has_correct_endpoint_def)
  have url: "has_correct_endpoint X fm w = (Inr (True, None), set_field_value f (Some v) w)"
    if "startswith ''http'' e" "urlparse X e = Inr u" "netloc u \<noteq> []"
       "\<not> contains ''MAAS'' (path u)" "urljoin X (geturl u) ''MAAS'' = Inr v" for u v
    using that assms by (simp add: has_correct_endpoint_def)
  have host: "has_correct_endpoint X fm w = (Inr (True, None), set_field_value f (Some v) w)"
    if "\<not> startswith ''http'' e" "is_valid_hostname X e"
       "urljoin X (''http://'' @ e @ '':5240'') ''MAAS'' = Inr v" for v
    using that assms by (simp add: has_correct_endpoint_def)
  have ipport: "has_correct_endpoint X fm w = (Inr (True, None), set_field_value f (Some v) w)"
    if "\<not> startswith ''http'' e" "\<not> is_valid_hostname X e" "e = ip @ '':'' @ port"
       "CHR '':'' \<notin> set ip" "CHR '':'' \<notin> set port" "ip_address X ip"
       "urljoin X (''http://'' @ ip @ '':'' @ port) ''MAAS'' = Inr v" for ip port v
  proof -
    have "split_on CHR '':'' e = [ip, port]"
      using that(3-5) by (simp add: split_on_append split_on_no_sep)
    then show ?thesis
      using that assms by (simp add: has_correct_endpoint_def Let_def)
  qed
  have iponly: "has_correct_endpoint X fm w = (Inr (True, None), set_field_value f (Some v) w)"
    if "\<not> startswith ''http'' e" "\<not> is_valid_hostname X e" "CHR '':'' \<notin> set e"
       "ip_address X e" "urljoin X (''http://'' @ e @ '':5240'') ''MAAS'' = Inr v" for v
  proof -
    have "split_on CHR '':'' e = [e]"
      using that(3) by (simp add: split_on_no_sep)
    then show ?thesis
      using that assms by (simp add: has_correct_endpoint_def Let_def)
  qed
  show ?thesis
    using kept[OF assms(2)] kept[OF stored] url host ipport iponly stored by blast
qed

lemma endpoint_branches_example:
  "has_correct_endpoint ext0 endpoint_form (world_with 0 (Some ''maas.example.com'')) =
     (Inr (True, None),
      set_field_value (hd endpoint_form) (Some ''http://maas.example.com:5240/MAAS'')
        (world_with 0 (Some ''maas.example.com''))) \<and>
   has_correct_endpoint ext0 endpoint_form
       (set_field_value (hd endpoint_form) (Some ''http://maas.example.com:5240/MAAS'')
          (world_with 0 (Some ''maas.example.com''))) =
     (Inr (True, None),
      set_field_value (hd endpoint_form) (Some ''http://maas.example.com:5240/MAAS'')
        (world_with 0 (Some ''maas.example.com''))) \<and>
   has_correct_endpoint ext0 endpoint_form (world_with 0 (Some ''192.168.1.5:1234'')) =
     (Inr (True, None),
      set_field_value (hd endpoint_form) (Some ''http://192.168.1.5:1234/MAAS'')
        (world_with 0 (Some ''192.168.1.5:1234''))) \<and>
   has_correct_endpoint ext0 endpoint_form (world_with 0 (Some ''http://h:5240/MAAS'')) =
     (Inr (True, None), world_with 0 (Some ''http://h:5240/MAAS''))"
proof -
  let ?f = "hd endpoint_form"
  have f: "form_field ''endpoint'' endpoint_form = Some ?f"
    by (simp add: endpoint_form_def)
  have v: "field_value ?f (world_with 0 (Some e)) = Some e" for e
    by (simp add: endpoint_form_def field_value_def world_with_def)
  note t = endpoint_branches[OF f v, of _ ext0]
  let ?u1 = "\<lparr>netloc = ''maas.example.com:5240'', path = ''/MAAS'',
              geturl = ''http://maas.example.com:5240/MAAS''\<rparr>"
  let ?u4 = "\<lparr>netloc = ''h:5240'', path = ''/MAAS'', geturl = ''http://h:5240/MAAS''\<rparr>"
  have m: "contains ''MAAS'' ''/MAAS''"
    by (simp add: startswith_def)
  have h1: "\<not> startswith ''http'' ''maas.example.com'' \<and>
            is_valid_hostname ext0 ''maas.example.com''"
    by (simp add: startswith_def ext0_def)
  have j1: "urljoin ext0 (''http://'' @ ''maas.example.com'' @ '':5240'') ''MAAS'' =
              Inr ''http://maas.example.com:5240/MAAS''"
    by code_simp
  have u1: "urlparse ext0 ''http://maas.example.com:5240/MAAS'' = Inr ?u1"
    by code_simp
  have p1: "startswith ''http'' ''http://maas.example.com:5240/MAAS'' \<and>
            urlparse ext0 ''http://maas.example.com:5240/MAAS'' = Inr ?u1 \<and>
            netloc ?u1 \<noteq> [] \<and> contains ''MAAS'' (path ?u1)"
    using u1 m by (simp add: startswith_def)
  have h3: "\<not> startswith ''http'' ''192.168.1.5:1234'' \<and>
            \<not> is_valid_hostname ext0 ''192.168.1.5:1234''"
    by (simp add: startswith_def ext0_def)
  have j3: "urljoin ext0 (''http://'' @ ''192.168.1.5'' @ '':'' @ ''1234'') ''MAAS'' =
              Inr ''http://192.168.1.5:1234/MAAS''"
    by code_simp
  have p3: "''192.168.1.5:1234'' = ''192.168.1.5'' @ '':'' @ ''1234'' \<and>
            CHR '':'' \<notin> set ''192.168.1.5'' \<and> CHR '':'' \<notin> set ''1234'' \<and>
            ip_address ext0 ''192.168.1.5'' \<and>
            urljoin ext0 (''http://'' @ ''192.168.1.5'' @ '':'' @ ''1234'') ''MAAS'' =
              Inr ''http://192.168.1.5:1234/MAAS''"
    using j3 by (simp add: ext0_def)
  have s4: "startswith ''http'' ''http://h:5240/MAAS''"
    by (simp add: startswith_def)
  have u4: "urlparse ext0 ''http://h:5240/MAAS'' = Inr ?u4"
    by code_simp
  have p4: "urlparse ext0 ''http://h:5240/MAAS'' = Inr ?u4 \<and> netloc ?u4 \<noteq> [] \<and>
            contains ''MAAS'' (path ?u4)"
    using u4 m by simp
  note 1 = t[of "''maas.example.com''", THEN conjunct2, THEN conjunct1, THEN mp, OF h1,
             rule_format, OF j1]
  note 2 = t[of "''maas.example.com''", THEN conjunct2, THEN conjunct2, THEN conjunct2,
             THEN conjunct2, rule_format, OF p1]
  note 3 = t[of "''192.168.1.5:1234''", THEN conjunct2, THEN conjunct2, THEN conjunct1,
             THEN mp, OF h3, THEN conjunct1, rule_format, OF p3]
  note 4 = t[of "''http://h:5240/MAAS''", THEN conjunct1, THEN mp, OF s4, THEN conjunct1,
             rule_format, OF p4]
  show ?thesis
    by (intro conjI) (rule 1, rule 2, rule 3, rule 4)
qed

end
